theory Spec2Isabelle
  imports Main
begin

section \<open>Python strings\<close>

text \<open>
  A Python \<^verbatim>\<open>str\<close> is modelled as a \<^typ>\<open>string\<close>, a character standing for a code
  point below 256. \<^verbatim>\<open>str.isspace\<close>, which \<^verbatim>\<open>str.strip\<close> and the regular
  expression class \<^verbatim>\<open>\s\<close> use, and the class \<^verbatim>\<open>\w\<close> are given on that range.
\<close>

definition isspace :: "char \<Rightarrow> bool" where
  "isspace c = (let n = (of_char c :: nat)
                in (9 \<le> n \<and> n \<le> 13) \<or> (28 \<le> n \<and> n \<le> 32) \<or> n = 133 \<or> n = 160)"

definition isword :: "char \<Rightarrow> bool" where
  "isword c = (let n = (of_char c :: nat)
               in (48 \<le> n \<and> n \<le> 57) \<or> (65 \<le> n \<and> n \<le> 90) \<or> n = 95 \<or> (97 \<le> n \<and> n \<le> 122)
                  \<or> n = 170 \<or> n = 178 \<or> n = 179 \<or> n = 181 \<or> n = 185 \<or> n = 186
                  \<or> (188 \<le> n \<and> n \<le> 190) \<or> (192 \<le> n \<and> n \<le> 214)
                  \<or> (216 \<le> n \<and> n \<le> 246) \<or> (248 \<le> n \<and> n \<le> 255))"

definition lstrip :: "string \<Rightarrow> string" where
  "lstrip s = dropWhile isspace s"

definition rstrip :: "string \<Rightarrow> string" where
  "rstrip s = rev (dropWhile isspace (rev s))"

definition strip :: "string \<Rightarrow> string" where
  "strip s = rstrip (lstrip s)"

definition startswith :: "string \<Rightarrow> string \<Rightarrow> bool" where
  "startswith s p = (take (length p) s = p)"

fun str_partition :: "string \<Rightarrow> string \<Rightarrow> (string \<times> string) option" where
  "str_partition sep [] = (if sep = [] then Some ([], []) else None)"
| "str_partition sep (c # cs) =
     (if startswith (c # cs) sep then Some ([], drop (length sep) (c # cs))
      else case str_partition sep cs of None \<Rightarrow> None | Some (b, a) \<Rightarrow> Some (c # b, a))"

definition contains :: "string \<Rightarrow> string \<Rightarrow> bool" where
  "contains s sub = (str_partition sub s \<noteq> None)"

definition replace1 :: "string \<Rightarrow> string \<Rightarrow> string \<Rightarrow> string" where
  "replace1 s old new = (case str_partition old s of None \<Rightarrow> s | Some (b, a) \<Rightarrow> b @ new @ a)"

fun split_on :: "char \<Rightarrow> string \<Rightarrow> string list" where
  "split_on sep [] = [[]]"
| "split_on sep (c # cs) =
     (if c = sep then [] # split_on sep cs
      else case split_on sep cs of [] \<Rightarrow> [[c]] | l # ls \<Rightarrow> (c # l) # ls)"

fun join :: "string \<Rightarrow> string list \<Rightarrow> string" where
  "join sep [] = []"
| "join sep [x] = x"
| "join sep (x # y # ys) = x @ sep @ join sep (y # ys)"


section \<open>Compilation worker: the child protocol's result\<close>

text \<open>
  \<^verbatim>\<open>verify_lean4_file\<close> (multiprocess_compiler_pool_shange.py) runs the Lean REPL on a
  command and parses its reply. The REPL is external: a run either yields a parsed JSON
  reply, in which the keys \<^verbatim>\<open>messages\<close> and \<^verbatim>\<open>sorries\<close> may be
  missing, or it fails (time-out, crash, output that is not JSON), which the bare
  \<^verbatim>\<open>except\<close> turns into a result carrying the traceback.
\<close>

record repl_message =
  severity :: "string option"
  msg_data :: string

record repl_reply =
  messages :: "repl_message list option"
  reply_sorries :: "string list option"

datatype repl_outcome = Reply repl_reply | Failed string

text \<open>
  The result dictionary. A key that the code does not set is \<open>None\<close>; the failure
  branch sets neither \<^verbatim>\<open>errors\<close> nor \<^verbatim>\<open>sorries\<close>.
\<close>

record compilation_result =
  cr_errors :: "repl_message list option"
  cr_sorries :: "string list option"
  cr_system_errors :: "string option"
  cr_system_messages :: "string option"
  cr_pass :: bool
  cr_complete :: bool

definition verify_lean4_file :: "(string \<Rightarrow> repl_outcome) \<Rightarrow> string \<Rightarrow> compilation_result" where
  "verify_lean4_file repl command =
     (case repl command of
        Reply result \<Rightarrow>
          (let errors = filter (\<lambda>m. severity m = Some ''error'')
                          (case messages result of None \<Rightarrow> [] | Some ms \<Rightarrow> ms);
               sorries = (case reply_sorries result of None \<Rightarrow> [] | Some ss \<Rightarrow> ss)
           in \<lparr>cr_errors = Some errors, cr_sorries = Some sorries,
               cr_system_errors = None, cr_system_messages = None,
               cr_pass = (errors = []), cr_complete = (errors = [] \<and> sorries = [])\<rparr>)
      | Failed traceback \<Rightarrow>
          \<lparr>cr_errors = None, cr_sorries = None,
           cr_system_errors = Some traceback, cr_system_messages = Some [],
           cr_pass = False, cr_complete = False\<rparr>)"

text \<open>
  How the repository reads the lists of a result:
  \<^verbatim>\<open>compilation_result.get('errors', [])\<close> (lightweightsearch.py, utils.py), so a
  missing list reads as the empty one.
\<close>

definition get_errors :: "compilation_result \<Rightarrow> repl_message list" where
  "get_errors r = (case cr_errors r of None \<Rightarrow> [] | Some es \<Rightarrow> es)"

definition get_sorries :: "compilation_result \<Rightarrow> string list" where
  "get_sorries r = (case cr_sorries r of None \<Rightarrow> [] | Some ss \<Rightarrow> ss)"


section \<open>Schedulers\<close>

subsection \<open>Exceptions, futures and the retry decorator\<close>

text \<open>
  The exceptions a call to the gateway can raise: \<^verbatim>\<open>httpx.RequestError\<close> (transport),
  \<^verbatim>\<open>httpx.HTTPStatusError\<close> from \<^verbatim>\<open>raise_for_status\<close>, the errors of
  reading the reply, and \<^verbatim>\<open>tenacity.RetryError\<close>, which wraps the exception of
  the last attempt.
\<close>

datatype exn =
    RequestError string
  | HTTPStatusError nat
  | LookupError string
  | ValueError string
  | TypeError string
  | RetryError exn

text \<open>
  The decorator \<^verbatim>\<open>@retry(stop=stop_after_attempt(n), wait=..., retry=retry_if_exception_type(E))\<close>.
  Attempts are numbered from 1. An exception outside \<open>E\<close> leaves the call as it is.
  For one inside \<open>E\<close>, \<^verbatim>\<open>stop_after_attempt(n)\<close> stops as soon as the attempt number
  is at least \<open>n\<close>, and since \<^verbatim>\<open>reraise\<close> keeps its default \<^verbatim>\<open>False\<close> the
  call then raises \<^verbatim>\<open>RetryError\<close> from the last exception. The waiting time between
  attempts is not modelled. The function returns the outcome with the number of attempts made;
  \<open>fn k\<close> is the outcome of the \<open>k\<close>-th attempt.
\<close>

function retry_call ::
  "nat \<Rightarrow> (exn \<Rightarrow> bool) \<Rightarrow> (nat \<Rightarrow> exn + 'r) \<Rightarrow> nat \<Rightarrow> (exn + 'r) \<times> nat" where
  "retry_call max_attempt_number retry_on fn attempt_number =
     (case fn attempt_number of
        Inr r \<Rightarrow> (Inr r, attempt_number)
      | Inl e \<Rightarrow>
          if \<not> retry_on e then (Inl e, attempt_number)
          else if attempt_number \<ge> max_attempt_number then (Inl (RetryError e), attempt_number)
          else retry_call max_attempt_number retry_on fn (Suc attempt_number))"
  by pat_completeness auto
termination
  by (relation "measure (\<lambda>(m, _, _, a). m - a)") auto

fun is_request_error :: "exn \<Rightarrow> bool" where
  "is_request_error (RequestError _) = True"
| "is_request_error _ = False"

datatype 'r future = Pending | Done 'r | Raised exn | Cancelled

fun future_done :: "'r future \<Rightarrow> bool" where
  "future_done Pending = False"
| "future_done _ = True"

subsection \<open>Inference scheduler\<close>

datatype prompt = PromptStr string | PromptMessages "(string \<times> string) list" | PromptOther

record task_data =
  td_prompt :: prompt
  td_model :: string
  td_extra_params :: "(string \<times> string) list option"

record usage =
  prompt_tokens :: nat
  completion_tokens :: nat
  total_tokens :: nat

record inference_result =
  content :: string
  res_usage :: usage

text \<open>
  The reply of the gateway to one POST: a transport error, or a response with a status and a
  JSON body, of which the model keeps what \<^verbatim>\<open>_make_api_call\<close> reads:
  \<^verbatim>\<open>choices[0].message.content\<close> (\<open>None\<close> when that path is missing) and the three
  counters of \<^verbatim>\<open>usage\<close>, each read with default 0.
\<close>

record response =
  status_code :: nat
  choice_content :: "string option"
  usage_prompt_tokens :: "nat option"
  usage_completion_tokens :: "nat option"
  usage_total_tokens :: "nat option"

definition get0 :: "nat option \<Rightarrow> nat" where
  "get0 v = (case v of None \<Rightarrow> 0 | Some n \<Rightarrow> n)"

text \<open>The body of \<^verbatim>\<open>InferenceSchedulerService._make_api_call\<close>: one attempt.\<close>

definition api_call_body :: "(task_data \<Rightarrow> exn + response) \<Rightarrow> task_data \<Rightarrow> exn + inference_result" where
  "api_call_body post task =
     (if td_prompt task = PromptOther then Inl (ValueError ''Invalid prompt format'')
      else case post task of
             Inl e \<Rightarrow> Inl e
           | Inr resp \<Rightarrow>
               if \<not> (200 \<le> status_code resp \<and> status_code resp < 300)
               then Inl (HTTPStatusError (status_code resp))
               else (case choice_content resp of
                       None \<Rightarrow> Inl (LookupError ''choices'')
                     | Some c \<Rightarrow>
                         Inr \<lparr>content = c,
                              res_usage = \<lparr>prompt_tokens = get0 (usage_prompt_tokens resp),
                                           completion_tokens = get0 (usage_completion_tokens resp),
                                           total_tokens = get0 (usage_total_tokens resp)\<rparr>\<rparr>))"

text \<open>
  The decorated method, with \<^verbatim>\<open>stop_after_attempt(0)\<close> and
  \<^verbatim>\<open>retry_if_exception_type(httpx.RequestError)\<close>. \<open>post k\<close> is the gateway's
  behaviour at the \<open>k\<close>-th attempt.
\<close>

definition make_api_call ::
  "(nat \<Rightarrow> task_data \<Rightarrow> exn + response) \<Rightarrow> task_data \<Rightarrow> (exn + inference_result) \<times> nat" where
  "make_api_call post task =
     retry_call 0 is_request_error (\<lambda>k. api_call_body (post k) task) 1"

text \<open>
  The scheduler: the priority queue holds the tuples
  \<^verbatim>\<open>(priority, count, task_data, future)\<close>; the future of a task is kept in a table
  under the task's count. \<^verbatim>\<open>asyncio.PriorityQueue.get\<close> returns a least entry;
  Python compares the tuples lexicographically, and since no two entries share a count the
  comparison is decided by \<^verbatim>\<open>(priority, count)\<close>.
\<close>

type_synonym entry = "int \<times> nat \<times> task_data"

definition priority :: "entry \<Rightarrow> int" where
  "priority e = fst e"

definition count :: "entry \<Rightarrow> nat" where
  "count e = fst (snd e)"

definition entry_less :: "entry \<Rightarrow> entry \<Rightarrow> bool" where
  "entry_less a b = (priority a < priority b \<or> (priority a = priority b \<and> count a < count b))"

fun least_entry :: "entry \<Rightarrow> entry list \<Rightarrow> entry" where
  "least_entry m [] = m"
| "least_entry m (x # xs) = least_entry (if entry_less x m then x else m) xs"

definition queue_get :: "entry list \<Rightarrow> (entry \<times> entry list) option" where
  "queue_get q = (case q of [] \<Rightarrow> None
                  | x # xs \<Rightarrow> (let m = least_entry x xs in Some (m, remove1 m q)))"

record scheduler =
  queue :: "entry list"
  task_counter :: nat
  futures :: "nat \<Rightarrow> inference_result future option"

definition scheduler_init :: scheduler where
  "scheduler_init = \<lparr>queue = [], task_counter = 0, futures = Map.empty\<rparr>"

text \<open>\<^verbatim>\<open>InferenceSchedulerService.inference\<close>, up to the point where the caller waits.\<close>

definition inference :: "task_data \<Rightarrow> int \<Rightarrow> scheduler \<Rightarrow> scheduler" where
  "inference task prio s =
     s\<lparr>queue := queue s @ [(prio, task_counter s, task)],
       futures := (futures s)(task_counter s \<mapsto> Pending),
       task_counter := task_counter s + 1\<rparr>"

text \<open>
  What the worker does with the outcome of the call: the result or the exception is set on
  the future unless the future is already done.
\<close>

definition settle :: "exn + 'r \<Rightarrow> 'r future \<Rightarrow> 'r future" where
  "settle outcome fut =
     (case outcome of
        Inr result \<Rightarrow> (if \<not> future_done fut then Done result else fut)
      | Inl e \<Rightarrow> (if \<not> future_done fut then Raised e else fut))"

text \<open>
  One iteration of \<^verbatim>\<open>InferenceSchedulerService._worker\<close>: take the least entry, make the
  call, settle the future. \<open>None\<close> when the queue is empty and the worker keeps waiting.
  The second component is the dispatched entry with the number of attempts made.
\<close>

definition worker :: "(nat \<Rightarrow> task_data \<Rightarrow> exn + response) \<Rightarrow> scheduler \<Rightarrow> (scheduler \<times> entry \<times> nat) option" where
  "worker post s =
     (case queue_get (queue s) of
        None \<Rightarrow> None
      | Some (e, q') \<Rightarrow>
          (let (outcome, attempts) = make_api_call post (snd (snd e));
               fut = (case futures s (count e) of None \<Rightarrow> Pending | Some f \<Rightarrow> f)
           in Some (s\<lparr>queue := q', futures := (futures s)(count e \<mapsto> settle outcome fut)\<rparr>,
                    e, attempts)))"



subsection \<open>Compilation scheduler\<close>

text \<open>
  \<^verbatim>\<open>CompilationSchedulerService._make_api_call\<close>: the same decorator with
  \<^verbatim>\<open>stop_after_attempt(1)\<close>; the reply is returned as parsed.
\<close>

definition compile_call_body :: "('t \<Rightarrow> exn + (nat \<times> 'j)) \<Rightarrow> 't \<Rightarrow> exn + 'j" where
  "compile_call_body post task =
     (case post task of
        Inl e \<Rightarrow> Inl e
      | Inr (status, body) \<Rightarrow>
          if \<not> (200 \<le> status \<and> status < 300) then Inl (HTTPStatusError status) else Inr body)"

definition compile_make_api_call ::
  "(nat \<Rightarrow> 't \<Rightarrow> exn + (nat \<times> 'j)) \<Rightarrow> 't \<Rightarrow> (exn + 'j) \<times> nat" where
  "compile_make_api_call post task =
     retry_call 1 is_request_error (\<lambda>k. compile_call_body (post k) task) 1"


section \<open>Regular expressions of the proof analysis\<close>

definition name_char :: "char \<Rightarrow> bool" where
  "name_char c = (isword c \<or> c = CHR ''.'')"

datatype decl_kind = Axiom | Lemma | Theorem | Def

fun keyword :: "decl_kind \<Rightarrow> string" where
  "keyword Axiom = ''axiom''"
| "keyword Lemma = ''lemma''"
| "keyword Theorem = ''theorem''"
| "keyword Def = ''def''"

definition match_declaration :: "string \<Rightarrow> (decl_kind \<times> string) option" where
  "match_declaration line =
     (let s = dropWhile isspace line in
      case find (\<lambda>k. startswith s (keyword k)) [Axiom, Lemma, Theorem, Def] of
        None \<Rightarrow> None
      | Some k \<Rightarrow>
          (let r = drop (length (keyword k)) s;
               n = takeWhile name_char (dropWhile isspace r)
           in if r \<noteq> [] \<and> isspace (hd r) \<and> n \<noteq> [] then Some (k, n) else None))"

fun head :: "string \<Rightarrow> char option" where
  "head [] = None"
| "head (c # cs) = Some c"

fun word_boundary :: "char option \<Rightarrow> char option \<Rightarrow> bool" where
  "word_boundary p n =
     ((case p of None \<Rightarrow> False | Some c \<Rightarrow> isword c) \<noteq> (case n of None \<Rightarrow> False | Some c \<Rightarrow> isword c))"

definition word_at :: "char option \<Rightarrow> string \<Rightarrow> string \<Rightarrow> bool" where
  "word_at prev w t =
     (startswith t w \<and> word_boundary prev (head t) \<and>
      word_boundary (if w = [] then prev else Some (last w)) (head (drop (length w) t)))"

fun search_from :: "char option \<Rightarrow> string \<Rightarrow> string \<Rightarrow> bool" where
  "search_from prev w [] = word_at prev w []"
| "search_from prev w (c # cs) = (word_at prev w (c # cs) \<or> search_from (Some c) w cs)"

definition search_word :: "string \<Rightarrow> string \<Rightarrow> bool" where
  "search_word w text = search_from None w text"

section \<open>Dictionaries\<close>

fun dict_set :: "'k \<Rightarrow> 'v \<Rightarrow> ('k \<times> 'v) list \<Rightarrow> ('k \<times> 'v) list" where
  "dict_set k v [] = [(k, v)]"
| "dict_set k v ((k', v') # d) = (if k' = k then (k, v) # d else (k', v') # dict_set k v d)"

section \<open>Proof analysis\<close>

record decl_info =
  decl_name :: string
  decl_type :: decl_kind
  start_line :: nat
  end_line :: nat
  dependencies :: "string set"
  has_proof :: bool
  full_text :: string
  original_subproblem :: "(string \<times> string list) option"
  fixed_subproblem :: "string option"
  was_fixed :: bool
  is_verified :: bool
  added_for :: "string option"
  renamed_from :: "string option"

text \<open>
  An entry of a result's \<^verbatim>\<open>errors\<close> list is a message of the compiler or, when the
  verification itself raised, the entry
  \<^verbatim>\<open>{'data': f'Verification failed: {e}'}\<close> of \<^verbatim>\<open>_verify_lemma_async\<close>, kept here with
  the exception \<^verbatim>\<open>e\<close> it renders.
\<close>

datatype lemma_error = CompilerError string | VerificationFailed exn

record lemma_result =
  lr_complete :: "bool option"
  lr_pass :: "bool option"
  lr_errors :: "lemma_error list option"
  lr_verified_by :: "string option"

record compilation_info =
  ci_compilation_result :: "lemma_result option"

record fix_record =
  fh_original_subproblem :: string
  fh_fixed_subproblem :: string
  fh_renamings :: "(string \<times> string) list option"

record analysis =
  pa_code :: string
  original_code :: string
  pa_errors :: "string list"
  pa_lines :: "string list"
  compilation_scheduler :: "(string \<Rightarrow> string \<Rightarrow> exn + compilation_info) option"
  fix_history :: "(string \<times> fix_record) list"
  pa_header :: string
  declarations :: "(string \<times> decl_info) list"
  lemma_compilation_results :: "string \<Rightarrow> lemma_result option"
  error_declarations :: "string set"
  verification_done :: bool

definition header_line :: "string \<Rightarrow> bool" where
  "header_line line =
     (let stripped = strip line
      in startswith stripped ''import'' \<or> startswith stripped ''open'' \<or>
         startswith stripped ''set_option'' \<or> stripped = [])"

definition extract_header :: "string list \<Rightarrow> string" where
  "extract_header lines = strip (join ''\<newline>'' (takeWhile header_line lines))"

definition new_declaration :: "string \<Rightarrow> decl_kind \<Rightarrow> nat \<Rightarrow> decl_info" where
  "new_declaration n k i =
     \<lparr>decl_name = n, decl_type = k, start_line = i + 1, end_line = i + 1, dependencies = {},
      has_proof = False, full_text = [], original_subproblem = None, fixed_subproblem = None,
      was_fixed = False, is_verified = False, added_for = None, renamed_from = None\<rparr>"

definition first_pass_step ::
  "nat \<times> string \<Rightarrow> (string \<times> decl_info) list \<Rightarrow> (string \<times> decl_info) list" where
  "first_pass_step x d =
     (case x of (i, line) \<Rightarrow>
        (case match_declaration line of
           None \<Rightarrow> d
         | Some (k, n) \<Rightarrow> dict_set n (new_declaration n k i) d))"

definition first_pass :: "string list \<Rightarrow> (string \<times> decl_info) list" where
  "first_pass lines = fold first_pass_step (enumerate 0 lines) []"

definition slice :: "'a list \<Rightarrow> nat \<Rightarrow> nat \<Rightarrow> 'a list" where
  "slice xs i j = take (j - i) (drop i xs)"

definition lemma_or_theorem :: "decl_kind \<Rightarrow> bool" where
  "lemma_or_theorem k = (k = Lemma \<or> k = Theorem)"

definition fill_text :: "string list \<Rightarrow> nat \<Rightarrow> decl_info \<Rightarrow> decl_info" where
  "fill_text lines end_idx d =
     (let text = strip (join ''\<newline>'' (slice lines (start_line d - 1) end_idx))
      in d\<lparr>end_line := end_idx, full_text := text,
           has_proof := (lemma_or_theorem (decl_type d) \<and> contains text '':='')\<rparr>)"

fun second_pass :: "string list \<Rightarrow> decl_info list \<Rightarrow> decl_info list" where
  "second_pass lines [] = []"
| "second_pass lines [d] = [fill_text lines (length lines) d]"
| "second_pass lines (d # d' # ds) =
     fill_text lines (start_line d' - 1) d # second_pass lines (d' # ds)"

definition third_pass :: "string list \<Rightarrow> string \<Rightarrow> decl_info \<Rightarrow> decl_info" where
  "third_pass decl_names n info =
     (if decl_type info \<in> {Lemma, Theorem, Def}
      then info\<lparr>dependencies :=
                  set (filter (\<lambda>other. other \<noteq> n \<and> search_word other (full_text info)) decl_names)\<rparr>
      else info)"

definition extract_declarations :: "string list \<Rightarrow> (string \<times> decl_info) list" where
  "extract_declarations lines =
     (let declarations = first_pass lines;
          decl_names = map fst declarations;
          sorted_decls = second_pass lines (sort_key start_line (map snd declarations));
          updated = map_of (map (\<lambda>d. (decl_name d, d)) sorted_decls)
      in map (\<lambda>(n, d). (n, third_pass decl_names n (case updated n of None \<Rightarrow> d | Some d' \<Rightarrow> d')))
             declarations)"

definition ProofAnalysis ::
  "string \<Rightarrow> string list option \<Rightarrow> (string \<Rightarrow> string \<Rightarrow> exn + compilation_info) option \<Rightarrow> analysis" where
  "ProofAnalysis code errors scheduler =
     (let lines = split_on CHR 0x0A code
      in \<lparr>pa_code = code, original_code = code,
          pa_errors = (case errors of None \<Rightarrow> [] | Some es \<Rightarrow> es),
          pa_lines = lines, compilation_scheduler = scheduler, fix_history = [],
          pa_header = extract_header lines, declarations = extract_declarations lines,
          lemma_compilation_results = Map.empty, error_declarations = {},
          verification_done = False\<rparr>)"

definition get_complete :: "lemma_result \<Rightarrow> bool" where
  "get_complete r = (case lr_complete r of None \<Rightarrow> False | Some b \<Rightarrow> b)"

text \<open>
  The message of the \<^verbatim>\<open>ValueError\<close> raised for a name that is not a declared lemma or
  theorem: \<^verbatim>\<open>f"'{lemma_name}' is not a valid lemma or theorem to {purpose}."\<close>.
\<close>

definition not_valid :: "string \<Rightarrow> string \<Rightarrow> string" where
  "not_valid lemma_name purpose =
     CHR 0x27 # lemma_name @ CHR 0x27 # '' is not a valid lemma or theorem to '' @ purpose @ ''.''"

definition get_proof_dependencies :: "analysis \<Rightarrow> string \<Rightarrow> string set" where
  "get_proof_dependencies a lemma_name =
     (case map_of (declarations a) lemma_name of
        None \<Rightarrow> {}
      | Some target_decl \<Rightarrow>
          (let proof_text =
                 (case str_partition '':= by'' (full_text target_decl) of
                    Some (_, rest) \<Rightarrow> rest
                  | None \<Rightarrow> (case str_partition '':='' (full_text target_decl) of
                               Some (_, rest) \<Rightarrow> rest
                             | None \<Rightarrow> []))
           in set (filter (\<lambda>other. other \<noteq> lemma_name \<and> search_word other proof_text)
                          (map fst (declarations a)))))"

definition should_include :: "analysis \<Rightarrow> string \<Rightarrow> bool" where
  "should_include a n =
     (case lemma_compilation_results a n of
        Some r \<Rightarrow> get_complete r
      | None \<Rightarrow> n \<notin> error_declarations a)"

definition axiom_form :: "string \<Rightarrow> string" where
  "axiom_form decl_text =
     (let axiom_text = (if startswith decl_text ''lemma'' then replace1 decl_text ''lemma'' ''axiom''
                        else replace1 decl_text ''theorem'' ''axiom'')
      in case str_partition '':='' axiom_text of
           Some (front, _) \<Rightarrow> strip front
         | None \<Rightarrow> axiom_text)"

definition subproblem_step ::
  "analysis \<Rightarrow> string \<Rightarrow> string set \<Rightarrow> decl_info \<Rightarrow> string list \<times> string list \<Rightarrow> string list \<times> string list" where
  "subproblem_step a lemma_name proof_deps info acc =
     (case acc of (context_parts, facts) \<Rightarrow>
        if decl_name info = lemma_name then acc
        else if decl_type info = Def then (context_parts @ [full_text info], facts)
        else if decl_type info = Axiom \<and> decl_name info \<in> proof_deps
             then (context_parts, facts @ [full_text info])
        else if lemma_or_theorem (decl_type info) \<and> decl_name info \<in> proof_deps
             then (if should_include a (decl_name info)
                   then (context_parts, facts @ [axiom_form (full_text info)])
                   else acc)
        else acc)"

definition construct_subproblem_internal :: "analysis \<Rightarrow> string \<Rightarrow> exn + (string \<times> string list)" where
  "construct_subproblem_internal a lemma_name =
     (case map_of (declarations a) lemma_name of
        None \<Rightarrow> Inl (ValueError (not_valid lemma_name ''construct a subproblem for''))
      | Some target_decl \<Rightarrow>
          if \<not> lemma_or_theorem (decl_type target_decl) then Inl (ValueError (not_valid lemma_name ''construct a subproblem for''))
          else
            (let proof_deps = get_proof_dependencies a lemma_name;
                 target_text = full_text target_decl;
                 theorem_text = (if startswith target_text ''lemma''
                                 then replace1 target_text ''lemma'' ''theorem'' else target_text);
                 theorem_text = (case str_partition '':='' theorem_text of
                                   Some (front, _) \<Rightarrow> strip front @ '' := by sorry''
                                 | None \<Rightarrow> theorem_text @ '' := by sorry'');
                 sorted_decls = sort_key start_line (map snd (declarations a));
                 (context_parts, facts) =
                    fold (subproblem_step a lemma_name proof_deps) sorted_decls ([], []);
                 full_context = join ''\<newline>\<newline>'' context_parts
             in Inr (pa_header a @ ''\<newline>'' @ full_context @ ''\<newline>'' @ theorem_text, facts)))"



definition verification_step ::
  "analysis \<Rightarrow> string \<Rightarrow> string set \<Rightarrow> decl_info \<Rightarrow> string list \<Rightarrow> string list" where
  "verification_step a lemma_name proof_deps info context_parts =
     (if decl_name info = lemma_name then context_parts
      else if decl_type info = Def then context_parts @ [full_text info]
      else if decl_type info = Axiom \<and> decl_name info \<in> proof_deps
           then context_parts @ [full_text info]
      else if lemma_or_theorem (decl_type info) \<and> decl_name info \<in> proof_deps
           then (if should_include a (decl_name info)
                 then context_parts @ [axiom_form (full_text info)]
                 else context_parts)
      else context_parts)"

definition construct_verification_code :: "analysis \<Rightarrow> string \<Rightarrow> exn + string" where
  "construct_verification_code a lemma_name =
     (case map_of (declarations a) lemma_name of
        None \<Rightarrow> Inl (ValueError (not_valid lemma_name ''verify''))
      | Some target_decl \<Rightarrow>
          if \<not> lemma_or_theorem (decl_type target_decl) then Inl (ValueError (not_valid lemma_name ''verify''))
          else
            (let proof_deps = get_proof_dependencies a lemma_name;
                 target_text = full_text target_decl;
                 sorted_decls = sort_key start_line (map snd (declarations a));
                 context_parts = fold (verification_step a lemma_name proof_deps) sorted_decls [];
                 full_context = join ''\<newline>\<newline>'' context_parts
             in Inr (pa_header a @ ''\<newline>\<newline>'' @ full_context @ ''\<newline>\<newline>'' @ target_text)))"

definition cache_subproblems :: "analysis \<Rightarrow> analysis" where
  "cache_subproblems a =
     a\<lparr>declarations :=
          map (\<lambda>(n, info).
                 (n, if lemma_or_theorem (decl_type info)
                     then (case construct_subproblem_internal a n of
                             Inr sp \<Rightarrow> info\<lparr>original_subproblem := Some sp\<rparr>
                           | Inl e \<Rightarrow> info)
                     else info))
              (declarations a)\<rparr>"

definition failed_result :: "exn \<Rightarrow> lemma_result" where
  "failed_result e =
     \<lparr>lr_complete = Some False, lr_pass = Some False,
      lr_errors = Some [VerificationFailed e], lr_verified_by = None\<rparr>"

definition empty_result :: lemma_result where
  "empty_result = \<lparr>lr_complete = None, lr_pass = None, lr_errors = None, lr_verified_by = None\<rparr>"

definition verify_lemma_async ::
  "analysis \<Rightarrow> (string \<Rightarrow> string \<Rightarrow> exn + compilation_info) \<Rightarrow> string \<Rightarrow> lemma_result option \<times> bool" where
  "verify_lemma_async a compile lemma_name =
     (if map_of (declarations a) lemma_name = None then (None, False)
      else case construct_verification_code a lemma_name of
             Inl e \<Rightarrow> (Some (failed_result e), False)
           | Inr verification_code \<Rightarrow>
               (case compile (''verify_'' @ lemma_name) verification_code of
                  Inl e \<Rightarrow> (Some (failed_result e), False)
                | Inr compilation_info \<Rightarrow>
                    (let compilation_result =
                           (case ci_compilation_result compilation_info of
                              None \<Rightarrow> empty_result | Some r \<Rightarrow> r)
                     in (Some compilation_result, get_complete compilation_result))))"

definition dict_update :: "'k \<Rightarrow> ('v \<Rightarrow> 'v) \<Rightarrow> ('k \<times> 'v) list \<Rightarrow> ('k \<times> 'v) list" where
  "dict_update k f d = map (\<lambda>(k', v). if k' = k then (k', f v) else (k', v)) d"

definition record_result :: "string \<times> lemma_result option \<times> bool \<Rightarrow> analysis \<Rightarrow> analysis" where
  "record_result x a =
     (case x of (n, r, _) \<Rightarrow>
        (case r of None \<Rightarrow> a
         | Some res \<Rightarrow> a\<lparr>lemma_compilation_results := (lemma_compilation_results a)(n \<mapsto> res)\<rparr>))"

definition mark_result :: "string \<times> lemma_result option \<times> bool \<Rightarrow> analysis \<Rightarrow> analysis" where
  "mark_result x a =
     (case x of (n, _, result) \<Rightarrow>
        a\<lparr>declarations := dict_update n (\<lambda>d. d\<lparr>is_verified := result\<rparr>) (declarations a),
          error_declarations := (if \<not> result then insert n (error_declarations a)
                                 else error_declarations a)\<rparr>)"

definition verify_all_lemmas :: "analysis \<Rightarrow> analysis" where
  "verify_all_lemmas a =
     (if verification_done a then a
      else case compilation_scheduler a of
             None \<Rightarrow> a
           | Some compile \<Rightarrow>
               (let lemma_names = map fst (filter (\<lambda>(n, info). lemma_or_theorem (decl_type info)
                                                       \<and> has_proof info) (declarations a));
                    results = map (\<lambda>n. (n, verify_lemma_async a compile n)) lemma_names;
                    a1 = fold record_result results a;
                    a2 = fold mark_result results a1
                in cache_subproblems (a2\<lparr>verification_done := True\<rparr>)))"


section \<open>Fresh names and renaming\<close>

function str_nat :: "nat \<Rightarrow> string" where
  "str_nat n = (if n < 10 then [char_of (48 + n)]
                else str_nat (n div 10) @ [char_of (48 + n mod 10)])"
  by pat_completeness auto
termination
  by (relation "measure id") auto

declare str_nat.simps [simp del]

definition suffixed :: "string \<Rightarrow> nat \<Rightarrow> string" where
  "suffixed base_name counter = base_name @ ''_'' @ str_nat counter"

lemma str_nat_nonempty: "str_nat n \<noteq> []"
  by (subst str_nat.simps) simp

lemma str_nat_inj: "str_nat n = str_nat m \<Longrightarrow> n = m"
proof (induction n arbitrary: m rule: str_nat.induct)
  case (1 n)
  show ?case
  proof (cases "n < 10")
    case True
    show ?thesis
    proof (cases "m < 10")
      case m: True
      from "1.prems" True m have "char_of (48 + n) = (char_of (48 + m) :: char)"
        by (simp add: str_nat.simps)
      then have "(48 + n) mod 256 = (48 + m) mod 256"
        by (metis of_char_of)
      with True m show ?thesis by simp
    next
      case False
      with "1.prems" True str_nat_nonempty [of "m div 10"] show ?thesis
        by (subst (asm) str_nat.simps, subst (asm) (2) str_nat.simps) simp
    qed
  next
    case False
    show ?thesis
    proof (cases "m < 10")
      case True
      with "1.prems" False str_nat_nonempty [of "n div 10"] show ?thesis
        by (subst (asm) str_nat.simps, subst (asm) (2) str_nat.simps) simp
    next
      case m: False
      from "1.prems" False m
      have e: "str_nat (n div 10) @ [char_of (48 + n mod 10)]
                 = str_nat (m div 10) @ [char_of (48 + m mod 10) :: char]"
        by (subst (asm) str_nat.simps, subst (asm) (2) str_nat.simps) simp
      then have "str_nat (n div 10) = str_nat (m div 10)" by simp
      with "1.IH" False have d: "n div 10 = m div 10" by simp
      from e have "char_of (48 + n mod 10) = (char_of (48 + m mod 10) :: char)" by simp
      then have "(48 + n mod 10) mod 256 = (48 + m mod 10) mod 256"
        by (metis of_char_of)
      moreover have "48 + n mod 10 < 256" "48 + m mod 10 < 256"
        by simp_all
      ultimately have "n mod 10 = m mod 10"
        by simp
      with d show ?thesis by (metis div_mult_mod_eq)
    qed
  qed
qed

lemma suffixed_inj: "suffixed b n = suffixed b m \<Longrightarrow> n = m"
  by (simp add: suffixed_def str_nat_inj)

lemma finite_taken: "finite {k. suffixed b k \<in> set existing}"
proof -
  have "inj (suffixed b)" by (rule injI) (rule suffixed_inj)
  then have "finite (suffixed b -` set existing)" by (simp add: finite_vimageI)
  then show ?thesis by (simp add: vimage_def)
qed

function unique_from :: "string \<Rightarrow> string list \<Rightarrow> nat \<Rightarrow> string" where
  "unique_from base_name existing_names counter =
     (if suffixed base_name counter \<in> set existing_names
      then unique_from base_name existing_names (counter + 1)
      else suffixed base_name counter)"
  by pat_completeness auto
termination
proof (relation "measure (\<lambda>(b, ex, c). card {k. c \<le> k \<and> suffixed b k \<in> set ex})")
  show "wf (measure (\<lambda>(b, ex, c). card {k. c \<le> k \<and> suffixed b k \<in> set ex}))" by simp
next
  fix base_name :: string and existing_names :: "string list" and counter :: nat
  assume a: "suffixed base_name counter \<in> set existing_names"
  let ?A = "{k. counter \<le> k \<and> suffixed base_name k \<in> set existing_names}"
  let ?B = "{k. counter + 1 \<le> k \<and> suffixed base_name k \<in> set existing_names}"
  have fin: "finite ?A" using finite_taken [of base_name existing_names] by (rule rev_finite_subset) auto
  from a have "counter \<in> ?A" "counter \<notin> ?B" by auto
  moreover have "?B \<subseteq> ?A" by auto
  ultimately have "?B \<subset> ?A" by blast
  with fin have "card ?B < card ?A" by (rule psubset_card_mono)
  then show "((base_name, existing_names, counter + 1), (base_name, existing_names, counter))
               \<in> measure (\<lambda>(b, ex, c). card {k. c \<le> k \<and> suffixed b k \<in> set ex})"
    by simp
qed

declare unique_from.simps [simp del]

definition generate_unique_name :: "string \<Rightarrow> string list \<Rightarrow> string" where
  "generate_unique_name base_name existing_names =
     (if base_name \<notin> set existing_names then base_name
      else unique_from base_name existing_names 1)"

definition kinds :: "decl_kind list" where
  "kinds = [Axiom, Lemma, Theorem, Def]"

definition match_rename :: "string \<Rightarrow> string \<Rightarrow> (decl_kind \<times> string) option" where
  "match_rename old_name t =
     (let s = dropWhile isspace t in
      case find (\<lambda>k. startswith s (keyword k)) kinds of
        None \<Rightarrow> None
      | Some k \<Rightarrow>
          (let r = drop (length (keyword k)) s;
               r' = dropWhile isspace r
           in if r \<noteq> [] \<and> isspace (hd r) \<and> old_name \<noteq> [] \<and> startswith r' old_name \<and>
                 word_boundary (Some (last old_name)) (head (drop (length old_name) r'))
              then Some (k, drop (length old_name) r') else None))"

lemma match_rename_shorter:
  assumes "match_rename old_name t = Some (k, rest)"
  shows "length rest < length t"
proof -
  have d: "length (dropWhile isspace xs) \<le> length xs" for xs
    by (rule length_dropWhile_le)
  from assms obtain k' where
    r: "rest = drop (length old_name) (dropWhile isspace (drop (length (keyword k')) (dropWhile isspace t)))"
    and n: "drop (length (keyword k')) (dropWhile isspace t) \<noteq> []"
    by (auto simp: match_rename_def Let_def split: option.splits if_splits)
  have "length rest \<le> length (drop (length (keyword k')) (dropWhile isspace t))"
    unfolding r using d [of "drop (length (keyword k')) (dropWhile isspace t)"] by simp
  also have "\<dots> < length (dropWhile isspace t)"
    using n by (cases k') auto
  also have "\<dots> \<le> length t" by (rule d)
  finally show ?thesis .
qed

function sub_declaration :: "bool \<Rightarrow> string \<Rightarrow> string \<Rightarrow> string \<Rightarrow> string" where
  "sub_declaration bol old_name new_name [] = []"
| "sub_declaration bol old_name new_name (c # cs) =
     (case (if bol then match_rename old_name (c # cs) else None) of
        Some (k, rest) \<Rightarrow> keyword k @ '' '' @ new_name @ sub_declaration False old_name new_name rest
      | None \<Rightarrow> c # sub_declaration (c = CHR 0x0A) old_name new_name cs)"
  by pat_completeness auto
termination
  by (relation "measure (\<lambda>(_, _, _, t). length t)")
     (auto split: if_splits dest: match_rename_shorter)

function sub_word :: "char option \<Rightarrow> string \<Rightarrow> string \<Rightarrow> string \<Rightarrow> string" where
  "sub_word prev old_name new_name [] = []"
| "sub_word prev old_name new_name (c # cs) =
     (if old_name \<noteq> [] \<and> word_at prev old_name (c # cs)
      then new_name @ sub_word (Some (last old_name)) old_name new_name (drop (length old_name) (c # cs))
      else c # sub_word (Some c) old_name new_name cs)"
  by pat_completeness auto
termination
  by (relation "measure (\<lambda>(_, _, _, t). length t)") auto

definition rename_declaration_in_text :: "string \<Rightarrow> string \<Rightarrow> string \<Rightarrow> string" where
  "rename_declaration_in_text t old_name new_name =
     sub_word None old_name new_name (sub_declaration True old_name new_name t)"



section \<open>Fixing a lemma\<close>

record fixed_decl =
  fd_type :: decl_kind
  fd_start_line :: nat
  fd_name :: string
  fd_end_line :: nat
  fd_text :: string
  fd_original_name :: "string option"

definition fixed_first_pass_step ::
  "nat \<times> string \<Rightarrow> (string \<times> fixed_decl) list \<Rightarrow> (string \<times> fixed_decl) list" where
  "fixed_first_pass_step x d =
     (case x of (i, line) \<Rightarrow>
        (case match_declaration line of
           None \<Rightarrow> d
         | Some (k, n) \<Rightarrow>
             dict_set n \<lparr>fd_type = k, fd_start_line = i, fd_name = n, fd_end_line = i,
                         fd_text = [], fd_original_name = None\<rparr> d))"

definition fixed_first_pass :: "string list \<Rightarrow> (string \<times> fixed_decl) list" where
  "fixed_first_pass fixed_lines = fold fixed_first_pass_step (enumerate 0 fixed_lines) []"

definition fixed_fill :: "string list \<Rightarrow> nat \<Rightarrow> fixed_decl \<Rightarrow> fixed_decl" where
  "fixed_fill fixed_lines end_idx d =
     d\<lparr>fd_end_line := end_idx,
       fd_text := strip (join ''\<newline>'' (slice fixed_lines (fd_start_line d) end_idx))\<rparr>"

fun fixed_second_pass :: "string list \<Rightarrow> fixed_decl list \<Rightarrow> fixed_decl list" where
  "fixed_second_pass fixed_lines [] = []"
| "fixed_second_pass fixed_lines [d] = [fixed_fill fixed_lines (length fixed_lines) d]"
| "fixed_second_pass fixed_lines (d # d' # ds) =
     fixed_fill fixed_lines (fd_start_line d') d # fixed_second_pass fixed_lines (d' # ds)"

definition fixed_declarations :: "string list \<Rightarrow> (string \<times> fixed_decl) list" where
  "fixed_declarations fixed_lines =
     (let found = fixed_first_pass fixed_lines;
          sorted_fixed_decls = fixed_second_pass fixed_lines (sort_key fd_start_line (map snd found));
          updated = map_of (map (\<lambda>d. (fd_name d, d)) sorted_fixed_decls)
      in map (\<lambda>(n, d). (n, case updated n of None \<Rightarrow> d | Some d' \<Rightarrow> d')) found)"

text \<open>Step 4 of \<^verbatim>\<open>fix_lemma\<close>: one turn of the loop over the declarations of the fix.\<close>

definition helper_step ::
  "string \<Rightarrow> string \<times> fixed_decl \<Rightarrow>
   fixed_decl list \<times> (string \<times> string) list \<times> string list \<Rightarrow>
   fixed_decl list \<times> (string \<times> string) list \<times> string list" where
  "helper_step lemma_name x acc =
     (case x of (n, decl_inf) \<Rightarrow>
      case acc of (new_lemmas, name_mappings, existing_names) \<Rightarrow>
        if fd_type decl_inf = Axiom \<or> fd_type decl_inf = Def then acc
        else if n = lemma_name then acc
        else if n \<in> set existing_names
        then (let new_name = generate_unique_name n existing_names
              in (new_lemmas @ [decl_inf\<lparr>fd_original_name := Some n, fd_name := new_name\<rparr>],
                  dict_set n new_name name_mappings,
                  existing_names @ [new_name]))
        else (new_lemmas @ [decl_inf], name_mappings, existing_names @ [n]))"

definition rename_all :: "(string \<times> string) list \<Rightarrow> string \<Rightarrow> string" where
  "rename_all name_mappings t =
     fold (\<lambda>(old_name, new_name) t'. rename_declaration_in_text t' old_name new_name) name_mappings t"

definition success_result :: lemma_result where
  "success_result = \<lparr>lr_complete = Some True, lr_pass = Some True, lr_errors = Some [],
                      lr_verified_by = Some ''lightweight_pipeline''\<rparr>"

definition restore_fixed :: "(string \<Rightarrow> lemma_result option) \<Rightarrow> string \<Rightarrow> analysis \<Rightarrow> analysis" where
  "restore_fixed old_compilation_results n a =
     (if map_of (declarations a) n = None then a
      else
        (let a1 = a\<lparr>declarations := dict_update n (\<lambda>d. d\<lparr>was_fixed := True\<rparr>) (declarations a)\<rparr>;
             a2 = (case map_of (fix_history a1) n of
                     None \<Rightarrow> a1
                   | Some h \<Rightarrow> a1\<lparr>declarations :=
                                     dict_update n (\<lambda>d. d\<lparr>fixed_subproblem := Some (fh_fixed_subproblem h)\<rparr>)
                                       (declarations a1)\<rparr>)
         in case old_compilation_results n of
              None \<Rightarrow> a2
            | Some r \<Rightarrow> a2\<lparr>lemma_compilation_results := (lemma_compilation_results a2)(n \<mapsto> r),
                            declarations :=
                              dict_update n (\<lambda>d. d\<lparr>is_verified := get_complete r\<rparr>) (declarations a2)\<rparr>))"

definition mark_verified :: "string \<Rightarrow> analysis \<Rightarrow> analysis" where
  "mark_verified verify_name a =
     (if map_of (declarations a) verify_name = None then a
      else a\<lparr>declarations :=
                dict_update verify_name (\<lambda>d. d\<lparr>was_fixed := True, is_verified := True\<rparr>) (declarations a),
              lemma_compilation_results := (lemma_compilation_results a)(verify_name \<mapsto> success_result),
              error_declarations := error_declarations a - {verify_name}\<rparr>)"

definition mark_helper :: "string \<Rightarrow> fixed_decl \<Rightarrow> analysis \<Rightarrow> analysis" where
  "mark_helper lemma_name new_lemma_info a =
     (if map_of (declarations a) (fd_name new_lemma_info) = None then a
      else a\<lparr>declarations :=
                dict_update (fd_name new_lemma_info)
                  (\<lambda>d. case fd_original_name new_lemma_info of
                          None \<Rightarrow> d\<lparr>added_for := Some lemma_name\<rparr>
                        | Some orig \<Rightarrow> d\<lparr>added_for := Some lemma_name, renamed_from := Some orig\<rparr>)
                  (declarations a)\<rparr>)"

definition coerce_keyword :: "decl_kind \<Rightarrow> string \<Rightarrow> string" where
  "coerce_keyword original_type new_decl_text =
     (if original_type = Lemma \<and> startswith new_decl_text ''theorem''
      then replace1 new_decl_text ''theorem'' ''lemma''
      else if original_type = Theorem \<and> startswith new_decl_text ''lemma''
      then replace1 new_decl_text ''lemma'' ''theorem''
      else new_decl_text)"

definition as_lemma :: "string \<Rightarrow> string" where
  "as_lemma lemma_text =
     (if startswith lemma_text ''theorem'' then replace1 lemma_text ''theorem'' ''lemma''
      else lemma_text)"

text \<open>
  Steps 9 to 12 of \<^verbatim>\<open>fix_lemma\<close>, on the analysis whose code, lines, fix history and
  declarations have been replaced: restore what is known of the lemmas fixed before, mark
  the fixed lemma and its new helpers as verified, record the fix on the lemma, tag the
  helpers, and refresh the cached subproblems.
\<close>

definition update_state ::
  "analysis \<Rightarrow> string list \<Rightarrow> (string \<Rightarrow> lemma_result option) \<Rightarrow> string \<Rightarrow>
   fixed_decl list \<Rightarrow> fix_record \<Rightarrow> analysis" where
  "update_state a1 previously_fixed old_compilation_results lemma_name new_lemmas history =
     (let a2 = fold (restore_fixed old_compilation_results) previously_fixed a1;
          a3 = fold mark_verified (lemma_name # map fd_name new_lemmas) a2;
          a4 = (if map_of (declarations a3) lemma_name = None then a3
                else a3\<lparr>declarations :=
                          dict_update lemma_name
                            (\<lambda>d. d\<lparr>fixed_subproblem := Some (fh_fixed_subproblem history)\<rparr>)
                            (declarations a3)\<rparr>);
          a5 = fold (mark_helper lemma_name) new_lemmas a4
      in cache_subproblems a5)"

text \<open>
  Steps 3 to 12 of \<^verbatim>\<open>fix_lemma\<close>, once the lemma is known to the analysis and found
  in the fix: coerce the keyword of the new text, collect the new helper lemmas and rename
  those whose names are taken, build the replacement, splice it over the lines of the
  lemma, record the fix and update the analysis.
\<close>

definition splice ::
  "analysis \<Rightarrow> string \<Rightarrow> string \<Rightarrow> decl_info \<Rightarrow> string \<Rightarrow>
   (string \<times> fixed_decl) list \<Rightarrow> fixed_decl \<Rightarrow> analysis" where
  "splice a lemma_name fixed_subproblem_code original_info orig_subproblem fixed_decls
          target_fixed_decl =
     (let previously_fixed = map fst (filter (\<lambda>(n, info). was_fixed info) (declarations a));
          new_decl_text = coerce_keyword (decl_type original_info) (fd_text target_fixed_decl);
          (new_lemmas, name_mappings, existing_names) =
             fold (helper_step lemma_name) fixed_decls ([], [], map fst (declarations a));
          new_lemmas = sort_key fd_start_line new_lemmas;
          new_lemmas = map (\<lambda>info. info\<lparr>fd_text := rename_all name_mappings (fd_text info)\<rparr>) new_lemmas;
          new_decl_text = rename_all name_mappings new_decl_text;
          replacement_parts = map (\<lambda>info. as_lemma (fd_text info)) new_lemmas @ [new_decl_text];
          replacement_text = join ''\<newline>\<newline>'' replacement_parts;
          new_lines = take (start_line original_info - 1) (pa_lines a)
                      @ split_on CHR 0x0A replacement_text
                      @ drop (end_line original_info) (pa_lines a);
          new_code = join ''\<newline>'' new_lines;
          history = (if name_mappings \<noteq> []
                     then \<lparr>fh_original_subproblem = orig_subproblem,
                           fh_fixed_subproblem = rename_all name_mappings fixed_subproblem_code,
                           fh_renamings = Some name_mappings\<rparr>
                     else \<lparr>fh_original_subproblem = orig_subproblem,
                           fh_fixed_subproblem = fixed_subproblem_code,
                           fh_renamings = None\<rparr>);
          a1 = a\<lparr>pa_code := new_code,
                 fix_history := dict_set lemma_name history (fix_history a),
                 pa_lines := split_on CHR 0x0A new_code,
                 declarations := extract_declarations (split_on CHR 0x0A new_code)\<rparr>
      in update_state a1 previously_fixed (lemma_compilation_results a) lemma_name
           new_lemmas history)"

text \<open>
  \<^verbatim>\<open>ProofAnalysis.fix_lemma\<close>. \<open>Inl\<close> is an exception; every exception the method can
  raise is raised before its first assignment to the analysis, which is then still as it
  was.
\<close>

definition fix_lemma :: "analysis \<Rightarrow> string \<Rightarrow> string \<Rightarrow> exn + analysis" where
  "fix_lemma a lemma_name fixed_subproblem_code =
     (case map_of (declarations a) lemma_name of
        None \<Rightarrow> Inr a
      | Some original_info \<Rightarrow>
     (case original_subproblem original_info of
        None \<Rightarrow> Inl (TypeError ''cannot unpack non-iterable NoneType object'')
      | Some (cached, _) \<Rightarrow>
     (case (if cached = [] then map_sum id fst (construct_subproblem_internal a lemma_name)
            else Inr cached) of
        Inl e \<Rightarrow> Inl e
      | Inr orig_subproblem \<Rightarrow>
     (let fixed_decls = fixed_declarations (split_on CHR 0x0A fixed_subproblem_code)
      in case map_of fixed_decls lemma_name of
           None \<Rightarrow> Inr a
         | Some target_fixed_decl \<Rightarrow>
             Inr (splice a lemma_name fixed_subproblem_code original_info orig_subproblem
                    fixed_decls target_fixed_decl)))))"

subsection \<open>The fix in evaluation order\<close>

text \<open>
  The same computation as \<^verbatim>\<open>fix_lemma\<close>, one function for each guard and each stage, so
  that a value is computed before the stage that uses it. The two lemmas below make these
  the equations by which \<^verbatim>\<open>fix_lemma\<close> and \<^verbatim>\<open>splice\<close> are evaluated.
\<close>

definition splice_helpers ::
  "analysis \<Rightarrow> string \<Rightarrow> string \<Rightarrow> decl_info \<Rightarrow> string \<Rightarrow> fixed_decl \<Rightarrow>
   (string \<times> string) list \<Rightarrow> fixed_decl list \<Rightarrow> fix_record \<Rightarrow> analysis" where
  "splice_helpers a lemma_name fixed_subproblem_code original_info orig_subproblem
                  target_fixed_decl name_mappings new_lemmas history =
     update_state
       (a\<lparr>pa_code :=
            join ''\<newline>''
              (take (start_line original_info - 1) (pa_lines a)
               @ split_on CHR 0x0A
                   (join ''\<newline>\<newline>''
                      (map (\<lambda>info. as_lemma (fd_text info)) new_lemmas
                       @ [rename_all name_mappings
                            (coerce_keyword (decl_type original_info) (fd_text target_fixed_decl))]))
               @ drop (end_line original_info) (pa_lines a)),
          fix_history := dict_set lemma_name history (fix_history a),
          pa_lines :=
            split_on CHR 0x0A
              (join ''\<newline>''
                 (take (start_line original_info - 1) (pa_lines a)
                  @ split_on CHR 0x0A
                      (join ''\<newline>\<newline>''
                         (map (\<lambda>info. as_lemma (fd_text info)) new_lemmas
                          @ [rename_all name_mappings
                               (coerce_keyword (decl_type original_info) (fd_text target_fixed_decl))]))
                  @ drop (end_line original_info) (pa_lines a))),
          declarations :=
            extract_declarations
              (split_on CHR 0x0A
                 (join ''\<newline>''
                    (take (start_line original_info - 1) (pa_lines a)
                     @ split_on CHR 0x0A
                         (join ''\<newline>\<newline>''
                            (map (\<lambda>info. as_lemma (fd_text info)) new_lemmas
                             @ [rename_all name_mappings
                                  (coerce_keyword (decl_type original_info) (fd_text target_fixed_decl))]))
                     @ drop (end_line original_info) (pa_lines a))))\<rparr>)
       (map fst (filter (\<lambda>(n, info). was_fixed info) (declarations a)))
       (lemma_compilation_results a) lemma_name new_lemmas history"

fun splice_renamed ::
  "analysis \<Rightarrow> string \<Rightarrow> string \<Rightarrow> decl_info \<Rightarrow> string \<Rightarrow> fixed_decl \<Rightarrow>
   fixed_decl list \<times> (string \<times> string) list \<times> string list \<Rightarrow> analysis" where
  "splice_renamed a lemma_name fixed_subproblem_code original_info orig_subproblem
                  target_fixed_decl (found, name_mappings, existing_names) =
     splice_helpers a lemma_name fixed_subproblem_code original_info orig_subproblem
       target_fixed_decl name_mappings
       (map (\<lambda>info. info\<lparr>fd_text := rename_all name_mappings (fd_text info)\<rparr>)
            (sort_key fd_start_line found))
       (if name_mappings \<noteq> []
        then \<lparr>fh_original_subproblem = orig_subproblem,
              fh_fixed_subproblem = rename_all name_mappings fixed_subproblem_code,
              fh_renamings = Some name_mappings\<rparr>
        else \<lparr>fh_original_subproblem = orig_subproblem,
              fh_fixed_subproblem = fixed_subproblem_code,
              fh_renamings = None\<rparr>)"

lemma splice_staged [code]:
  "splice a lemma_name fixed_subproblem_code original_info orig_subproblem fixed_decls
          target_fixed_decl =
     splice_renamed a lemma_name fixed_subproblem_code original_info orig_subproblem
       target_fixed_decl
       (fold (helper_step lemma_name) fixed_decls ([], [], map fst (declarations a)))"
  by (cases "fold (helper_step lemma_name) fixed_decls ([], [], map fst (declarations a))")
     (simp add: splice_def splice_helpers_def Let_def)

fun fix_target ::
  "analysis \<Rightarrow> string \<Rightarrow> string \<Rightarrow> decl_info \<Rightarrow> string \<Rightarrow>
   (string \<times> fixed_decl) list \<Rightarrow> fixed_decl option \<Rightarrow> exn + analysis" where
  "fix_target a lemma_name fixed_subproblem_code original_info orig_subproblem fixed_decls None
     = Inr a"
| "fix_target a lemma_name fixed_subproblem_code original_info orig_subproblem fixed_decls
              (Some target_fixed_decl)
     = Inr (splice a lemma_name fixed_subproblem_code original_info orig_subproblem fixed_decls
              target_fixed_decl)"

definition fix_found ::
  "analysis \<Rightarrow> string \<Rightarrow> string \<Rightarrow> decl_info \<Rightarrow> string \<Rightarrow>
   (string \<times> fixed_decl) list \<Rightarrow> exn + analysis" where
  "fix_found a lemma_name fixed_subproblem_code original_info orig_subproblem fixed_decls =
     fix_target a lemma_name fixed_subproblem_code original_info orig_subproblem fixed_decls
       (map_of fixed_decls lemma_name)"

fun fix_original ::
  "analysis \<Rightarrow> string \<Rightarrow> string \<Rightarrow> decl_info \<Rightarrow> exn + string \<Rightarrow> exn + analysis" where
  "fix_original a lemma_name fixed_subproblem_code original_info (Inl e) = Inl e"
| "fix_original a lemma_name fixed_subproblem_code original_info (Inr orig_subproblem) =
     fix_found a lemma_name fixed_subproblem_code original_info orig_subproblem
       (fixed_declarations (split_on CHR 0x0A fixed_subproblem_code))"

fun fix_cached ::
  "analysis \<Rightarrow> string \<Rightarrow> string \<Rightarrow> decl_info \<Rightarrow> (string \<times> string list) option \<Rightarrow>
   exn + analysis" where
  "fix_cached a lemma_name fixed_subproblem_code original_info None =
     Inl (TypeError ''cannot unpack non-iterable NoneType object'')"
| "fix_cached a lemma_name fixed_subproblem_code original_info (Some (cached, facts)) =
     fix_original a lemma_name fixed_subproblem_code original_info
       (if cached = [] then map_sum id fst (construct_subproblem_internal a lemma_name)
        else Inr cached)"

fun fix_declared ::
  "analysis \<Rightarrow> string \<Rightarrow> string \<Rightarrow> decl_info option \<Rightarrow> exn + analysis" where
  "fix_declared a lemma_name fixed_subproblem_code None = Inr a"
| "fix_declared a lemma_name fixed_subproblem_code (Some original_info) =
     fix_cached a lemma_name fixed_subproblem_code original_info
       (original_subproblem original_info)"

lemma fix_lemma_staged [code]:
  "fix_lemma a lemma_name fixed_subproblem_code =
     fix_declared a lemma_name fixed_subproblem_code (map_of (declarations a) lemma_name)"
  by (auto simp: fix_lemma_def fix_found_def Let_def split: option.splits sum.splits)


section \<open>Output normalisation of the lightweight search\<close>

definition DEFAULT_HEADER :: string where
  "DEFAULT_HEADER = ''import Mathlib\<newline>import Aesop\<newline>\<newline>set_option maxHeartbeats 0\<newline>\<newline>open BigOperators Real Nat Topology Rat\<newline>\<newline>''"

definition DEFAULT_HEADER_NO_OPEN :: string where
  "DEFAULT_HEADER_NO_OPEN = ''import Mathlib\<newline>import Aesop\<newline>\<newline>set_option maxHeartbeats 0\<newline>\<newline>''"

text \<open>
  \<^verbatim>\<open>str.splitlines\<close>: a line ends at a line feed, a carriage return (with the line feed
  that follows it, if any), a vertical tab, a form feed, a file, group or record separator,
  or a next-line character; the last line needs no line break.
\<close>

definition linebreak :: "char \<Rightarrow> bool" where
  "linebreak c = (let n = (of_char c :: nat)
                  in (10 \<le> n \<and> n \<le> 13) \<or> (28 \<le> n \<and> n \<le> 30) \<or> n = 133)"

fun splitlines :: "string \<Rightarrow> string list" where
  "splitlines [] = []"
| "splitlines [c] = (if linebreak c then [[]] else [[c]])"
| "splitlines (c # d # cs) =
     (if c = CHR 0x0D \<and> d = CHR 0x0A then [] # splitlines cs
      else if linebreak c then [] # splitlines (d # cs)
      else case splitlines (d # cs) of [] \<Rightarrow> [[c]] | l # ls \<Rightarrow> (c # l) # ls)"

text \<open>\<^verbatim>\<open>str.find\<close> and \<^verbatim>\<open>str.rfind\<close>; \<open>None\<close> stands for -1.\<close>

definition str_find :: "string \<Rightarrow> string \<Rightarrow> nat option" where
  "str_find s sub = find (\<lambda>i. startswith (drop i s) sub) [0..<Suc (length s)]"

definition str_rfind :: "string \<Rightarrow> string \<Rightarrow> nat option" where
  "str_rfind s sub = find (\<lambda>i. startswith (drop i s) sub) (rev [0..<Suc (length s)])"

text \<open>
  \<^verbatim>\<open>re.findall(opener + "(.*?)```", output, re.DOTALL)\<close>: the contents of the fenced
  blocks, from left to right, each ending at the first closing fence after its opener.
\<close>

lemma str_partition_length:
  "str_partition sep s = Some (b, a) \<Longrightarrow> length b + length sep + length a = length s"
proof (induction s arbitrary: b)
  case Nil
  then show ?case by (simp split: if_splits)
next
  case (Cons c cs)
  show ?case
  proof (cases "startswith (c # cs) sep")
    case True
    with Cons.prems have "b = []" "a = drop (length sep) (c # cs)" by simp_all
    moreover from True have "length (take (length sep) (c # cs)) = length sep"
      by (simp only: startswith_def)
    then have "length sep \<le> length (c # cs)"
      by simp
    ultimately show ?thesis by simp
  next
    case False
    with Cons.prems obtain b' where "str_partition sep cs = Some (b', a)" "b = c # b'"
      by (auto split: option.splits)
    with Cons.IH [of b'] show ?thesis by simp
  qed
qed


function findall_fenced :: "string \<Rightarrow> string \<Rightarrow> string list" where
  "findall_fenced opener [] = []"
| "findall_fenced opener (c # cs) =
     (if startswith (c # cs) opener
      then (case str_partition ''```'' (drop (length opener) (c # cs)) of
              Some (inner, rest) \<Rightarrow> inner # findall_fenced opener rest
            | None \<Rightarrow> findall_fenced opener cs)
      else findall_fenced opener cs)"
  by pat_completeness auto
termination
proof (relation "measure (\<lambda>(opener, t). length t)")
  show "wf (measure (\<lambda>(opener, t). length t))" by simp
next
  fix opener :: string and c cs x2 x y
  assume "str_partition ''```'' (drop (length opener) (c # cs)) = Some x2" and "(x, y) = x2"
  then have "length x + length ''```'' + length y = length (drop (length opener) (c # cs))"
    using str_partition_length [of "''```''" "drop (length opener) (c # cs)" x y] by simp
  then show "((opener, y), (opener, c # cs)) \<in> measure (\<lambda>(opener, t). length t)"
    by simp
qed simp_all

text \<open>\<^verbatim>\<open>remove_lean_comments\<close>: the scanner with its nesting level and its line-comment flag.\<close>

fun remove_comments_from :: "nat \<Rightarrow> bool \<Rightarrow> string \<Rightarrow> string" where
  "remove_comments_from nesting_level in_single_line_comment [] = []"
| "remove_comments_from (Suc n) s [c] = []"
| "remove_comments_from (Suc n) s (c # d # cs) =
     (if c = CHR ''/'' \<and> d = CHR ''-'' then remove_comments_from (Suc (Suc n)) s cs
      else if c = CHR ''-'' \<and> d = CHR ''/'' then remove_comments_from n s cs
      else remove_comments_from (Suc n) s (d # cs))"
| "remove_comments_from 0 True (c # cs) =
     (if c = CHR 0x0A then CHR 0x0A # remove_comments_from 0 False cs
      else remove_comments_from 0 True cs)"
| "remove_comments_from 0 False [c] = [c]"
| "remove_comments_from 0 False (c # d # cs) =
     (if c = CHR ''/'' \<and> d = CHR ''-'' then remove_comments_from 1 False cs
      else if c = CHR ''-'' \<and> d = CHR ''-'' then remove_comments_from 0 True cs
      else c # remove_comments_from 0 False (d # cs))"

definition remove_lean_comments :: "string \<Rightarrow> string" where
  "remove_lean_comments lean_code = remove_comments_from 0 False lean_code"

text \<open>
  \<^verbatim>\<open>split_proof_at_first_statement\<close>: the text is cut at the first whole word
  \<^verbatim>\<open>axiom\<close>, \<^verbatim>\<open>lemma\<close> or \<^verbatim>\<open>theorem\<close>.
\<close>

definition statement_at :: "char option \<Rightarrow> string \<Rightarrow> bool" where
  "statement_at prev t = (word_at prev ''axiom'' t \<or> word_at prev ''lemma'' t \<or> word_at prev ''theorem'' t)"

fun split_statement_from :: "char option \<Rightarrow> string \<Rightarrow> (string \<times> string) option" where
  "split_statement_from prev [] = None"
| "split_statement_from prev (c # cs) =
     (if statement_at prev (c # cs) then Some ([], c # cs)
      else case split_statement_from (Some c) cs of
             None \<Rightarrow> None
           | Some (front, rest) \<Rightarrow> Some (c # front, rest))"

definition split_proof_at_first_statement :: "string \<Rightarrow> string \<times> string" where
  "split_proof_at_first_statement proof_text =
     (case split_statement_from None proof_text of
        Some (front, rest) \<Rightarrow> (front, rest)
      | None \<Rightarrow> (proof_text, []))"

definition remove_imports_from_proof :: "string \<Rightarrow> string" where
  "remove_imports_from_proof proof_text = strip (snd (split_proof_at_first_statement proof_text))"

definition remove_comments_and_axioms_from_proof :: "string \<Rightarrow> string" where
  "remove_comments_and_axioms_from_proof proof_text =
     (let stripped = strip (remove_lean_comments proof_text)
      in case str_partition ''lemma'' stripped of
           Some (front, rest) \<Rightarrow> strip (''lemma'' @ rest)
         | None \<Rightarrow> (case str_partition ''theorem'' stripped of
                       Some (front, rest) \<Rightarrow> strip (''theorem'' @ rest)
                     | None \<Rightarrow> strip ''theorem''))"

definition last_theorem_index :: "string \<Rightarrow> nat option" where
  "last_theorem_index s =
     (case str_rfind s ''\<newline>theorem '' of
        Some i \<Rightarrow> Some i
      | None \<Rightarrow> (if startswith s ''theorem '' then Some 0 else None))"

definition substitute_final_theorem :: "string \<Rightarrow> string \<Rightarrow> string" where
  "substitute_final_theorem lean_proof problem_statement =
     (let proof_text = strip lean_proof;
          problem = strip problem_statement
      in case last_theorem_index proof_text of
           None \<Rightarrow> proof_text @ ''\<newline>\<newline>'' @ problem
         | Some idx \<Rightarrow>
             (let proof_prefix = take idx proof_text;
                  final_theorem_block = drop idx proof_text
              in case str_find final_theorem_block '':='' of
                   None \<Rightarrow> strip proof_prefix @ ''\<newline>\<newline>'' @ problem
                 | Some proof_start_index \<Rightarrow>
                     (case last_theorem_index problem of
                        None \<Rightarrow> strip proof_prefix @ ''\<newline>\<newline>'' @ problem
                      | Some problem_theorem_start_index \<Rightarrow>
                          (case str_rfind problem '':='' of
                             None \<Rightarrow> strip proof_prefix @ ''\<newline>\<newline>'' @ problem
                           | Some signature_end_index \<Rightarrow>
                               strip proof_prefix @ ''\<newline>\<newline>''
                               @ strip (slice problem problem_theorem_start_index signature_end_index)
                               @ '' '' @ strip (drop proof_start_index final_theorem_block)))))"

definition extract_open_line :: "string \<Rightarrow> string option" where
  "extract_open_line header = find (\<lambda>line. startswith (strip line) ''open'') (splitlines header)"

definition process_import_part :: "string \<Rightarrow> string" where
  "process_import_part header =
     (case extract_open_line header of
        None \<Rightarrow> DEFAULT_HEADER
      | Some line \<Rightarrow> if line = [] then DEFAULT_HEADER
                     else DEFAULT_HEADER_NO_OPEN @ line @ ''\<newline>\<newline>'')"

text \<open>
  \<^verbatim>\<open>InferenceHandler.process_output\<close>: the last block fenced as \<^verbatim>\<open>lean4\<close>, else the last
  block fenced as \<^verbatim>\<open>lean\<close>, else the raw output is cleaned, given the signature of the
  statement, and tested for the refused words. \<open>facts\<close> is \<open>None\<close> or a list.
\<close>

definition InferenceHandler_process_output :: "string \<Rightarrow> string \<Rightarrow> string list option \<Rightarrow> string" where
  "InferenceHandler_process_output output statement facts =
     (let use_facts = (case facts of None \<Rightarrow> False | Some fs \<Rightarrow> fs \<noteq> []);
          axioms_str = (case facts of None \<Rightarrow> [] | Some fs \<Rightarrow> join ''\<newline>\<newline>'' fs);
          matches = findall_fenced ''```lean4'' output;
          imports_and_opens = fst (split_proof_at_first_statement statement)
      in if matches \<noteq> []
         then (let return_str = remove_imports_from_proof
                                  (remove_comments_and_axioms_from_proof (strip (last matches)));
                   return_str = substitute_final_theorem return_str statement;
                   return_str = strip return_str
               in if contains return_str ''apply?'' \<or> contains return_str ''exact?'' \<or>
                     contains return_str ''admit'' \<or> contains return_str ''axiom''
                  then statement
                  else if use_facts
                  then process_import_part imports_and_opens @ ''\<newline>\<newline>'' @ axioms_str
                       @ ''\<newline>\<newline>'' @ return_str
                  else process_import_part imports_and_opens @ return_str)
         else (let matches1 = findall_fenced ''```lean'' output
               in if matches1 \<noteq> []
                  then (let return_str = remove_imports_from_proof
                                           (remove_comments_and_axioms_from_proof (strip (last matches1)));
                            return_str = substitute_final_theorem return_str statement;
                            return_str = strip return_str
                        in if contains return_str ''apply?'' \<or> contains return_str ''exact?'' \<or>
                              contains return_str ''admit'' \<or> contains return_str ''axiom''
                           then statement
                           else if use_facts
                           then process_import_part imports_and_opens @ ''\<newline>\<newline>'' @ axioms_str
                                @ ''\<newline>\<newline>'' @ return_str
                           else process_import_part imports_and_opens @ return_str)
                  else (let return_str = remove_imports_from_proof
                                           (remove_comments_and_axioms_from_proof (strip output));
                            return_str = substitute_final_theorem return_str statement;
                            return_str = strip return_str
                        in if contains return_str ''apply?'' \<or> contains return_str ''exact?'' \<or>
                              contains return_str ''admit'' \<or> contains return_str ''axiom''
                           then statement
                           else process_import_part imports_and_opens @ return_str)))"

text \<open>\<^verbatim>\<open>RevisionHandler.process_output\<close>, which has the same body.\<close>

definition RevisionHandler_process_output :: "string \<Rightarrow> string \<Rightarrow> string list option \<Rightarrow> string" where
  "RevisionHandler_process_output output statement facts =
     (let use_facts = (case facts of None \<Rightarrow> False | Some fs \<Rightarrow> fs \<noteq> []);
          axioms_str = (case facts of None \<Rightarrow> [] | Some fs \<Rightarrow> join ''\<newline>\<newline>'' fs);
          matches = findall_fenced ''```lean4'' output;
          imports_and_opens = fst (split_proof_at_first_statement statement)
      in if matches \<noteq> []
         then (let return_str = remove_imports_from_proof
                                  (remove_comments_and_axioms_from_proof (strip (last matches)));
                   return_str = substitute_final_theorem return_str statement;
                   return_str = strip return_str
               in if contains return_str ''apply?'' \<or> contains return_str ''exact?'' \<or>
                     contains return_str ''admit'' \<or> contains return_str ''axiom''
                  then statement
                  else if use_facts
                  then process_import_part imports_and_opens @ ''\<newline>\<newline>'' @ axioms_str
                       @ ''\<newline>\<newline>'' @ return_str
                  else process_import_part imports_and_opens @ return_str)
         else (let matches1 = findall_fenced ''```lean'' output
               in if matches1 \<noteq> []
                  then (let return_str = remove_imports_from_proof
                                           (remove_comments_and_axioms_from_proof (strip (last matches1)));
                            return_str = substitute_final_theorem return_str statement;
                            return_str = strip return_str
                        in if contains return_str ''apply?'' \<or> contains return_str ''exact?'' \<or>
                              contains return_str ''admit'' \<or> contains return_str ''axiom''
                           then statement
                           else if use_facts
                           then process_import_part imports_and_opens @ ''\<newline>\<newline>'' @ axioms_str
                                @ ''\<newline>\<newline>'' @ return_str
                           else process_import_part imports_and_opens @ return_str)
                  else (let return_str = remove_imports_from_proof
                                           (remove_comments_and_axioms_from_proof (strip output));
                            return_str = substitute_final_theorem return_str statement;
                            return_str = strip return_str
                        in if contains return_str ''apply?'' \<or> contains return_str ''exact?'' \<or>
                              contains return_str ''admit'' \<or> contains return_str ''axiom''
                           then statement
                           else process_import_part imports_and_opens @ return_str)))"

text \<open>
  The candidate proof extracted from an output: the text that is taken from the output,
  cleaned and given the signature of the statement.
\<close>

definition extracted_text :: "string \<Rightarrow> string" where
  "extracted_text output =
     (if findall_fenced ''```lean4'' output \<noteq> [] then last (findall_fenced ''```lean4'' output)
      else if findall_fenced ''```lean'' output \<noteq> [] then last (findall_fenced ''```lean'' output)
      else output)"

definition candidate :: "string \<Rightarrow> string \<Rightarrow> string" where
  "candidate output statement =
     strip (substitute_final_theorem
              (remove_imports_from_proof
                 (remove_comments_and_axioms_from_proof (strip (extracted_text output))))
              statement)"


section \<open>Sample inputs\<close>

definition repl_timeout :: "string \<Rightarrow> repl_outcome" where
  "repl_timeout command = Failed ''TimeoutExpired''"

definition repl_warning :: "string \<Rightarrow> repl_outcome" where
  "repl_warning command =
     Reply \<lparr>messages = Some [\<lparr>severity = Some ''warning'', msg_data = ''unused variable''\<rparr>],
            reply_sorries = None\<rparr>"

definition task0 :: task_data where
  "task0 = \<lparr>td_prompt = PromptStr ''prove it'', td_model = ''prover'', td_extra_params = None\<rparr>"

definition refused :: "nat \<Rightarrow> task_data \<Rightarrow> exn + response" where
  "refused k task = Inl (RequestError ''connection refused'')"

definition unavailable :: "nat \<Rightarrow> task_data \<Rightarrow> exn + response" where
  "unavailable k task =
     Inr \<lparr>status_code = 503, choice_content = None, usage_prompt_tokens = None,
          usage_completion_tokens = None, usage_total_tokens = None\<rparr>"



definition kinds_of :: "analysis \<Rightarrow> (string \<times> decl_kind \<times> bool) list" where
  "kinds_of a = map (\<lambda>(n, d). (n, decl_type d, has_proof d)) (declarations a)"



definition small_proof :: string where
  "small_proof = ''lemma B : True := by\<newline>  exact foo''"

definition small_unverified :: analysis where
  "small_unverified = verify_all_lemmas (ProofAnalysis small_proof None None)"



text \<open>
  The parts of a subproblem as the description of \<^verbatim>\<open>construct_subproblem\<close> names them,
  to be compared with the loop of the source: the declarations in source order, and the
  defs other than the target.
\<close>

definition sorted_declarations :: "analysis \<Rightarrow> decl_info list" where
  "sorted_declarations a = sort_key start_line (map snd (declarations a))"

definition context_defs :: "analysis \<Rightarrow> string \<Rightarrow> string list" where
  "context_defs a lemma_name =
     map full_text (filter (\<lambda>i. decl_name i \<noteq> lemma_name \<and> decl_type i = Def) (sorted_declarations a))"




definition fact_text :: "decl_info \<Rightarrow> string" where
  "fact_text i = (if decl_type i = Axiom then full_text i else axiom_form (full_text i))"


text \<open>
  The target as it closes the subproblem: a leading keyword \<^verbatim>\<open>lemma\<close> becomes
  \<^verbatim>\<open>theorem\<close>, the text is cut before its first \<^verbatim>\<open>:=\<close> and stripped, and
  \<^verbatim>\<open> := by sorry\<close> is appended. The cut is at the first \<^verbatim>\<open>:=\<close> of the text, also
  when that one stands inside the statement (a default value of a binder) and not before
  the proof; a text without \<^verbatim>\<open>:=\<close> is kept whole.
\<close>

definition sorry_form :: "string \<Rightarrow> string" where
  "sorry_form target_text =
     (let theorem_text = (if startswith target_text ''lemma''
                          then replace1 target_text ''lemma'' ''theorem'' else target_text)
      in case str_partition '':='' theorem_text of
           Some (front, _) \<Rightarrow> strip front @ '' := by sorry''
         | None \<Rightarrow> theorem_text @ '' := by sorry'')"

definition reject_B :: "string \<Rightarrow> string \<Rightarrow> exn + compilation_info" where
  "reject_B n c =
     Inr \<lparr>ci_compilation_result =
            Some \<lparr>lr_complete = Some (n \<noteq> ''verify_B''), lr_pass = Some (n \<noteq> ''verify_B''),
                  lr_errors = Some (if n = ''verify_B'' then [CompilerError ''unknown identifier''] else []),
                  lr_verified_by = None\<rparr>\<rparr>"

definition scenario5_code :: string where
  "scenario5_code = ''import Mathlib\<newline>\<newline>def f (n : Nat) : Nat := n\<newline>\<newline>lemma A : f 0 = 0 := by\<newline>  rfl\<newline>\<newline>lemma B : f 1 = 1 := by\<newline>  simp [A, foo]\<newline>\<newline>theorem T : f 2 = 2 := by\<newline>  exact bar A B''"

definition scenario5 :: analysis where
  "scenario5 = verify_all_lemmas (ProofAnalysis scenario5_code None (Some reject_B))"


definition stray_fix :: string where
  "stray_fix = ''theorem C : f 1 = 1 := by\<newline>  simp [f]''"


text \<open>
  What step 10 of \<^verbatim>\<open>fix_lemma\<close> establishes for a name, if the name is declared: the
  declaration is flagged fixed and verified, the recorded compilation result is the success
  result, and the name is not an error declaration.
\<close>

definition marked_fixed :: "string \<Rightarrow> analysis \<Rightarrow> bool" where
  "marked_fixed L a =
     (case map_of (declarations a) L of
        None \<Rightarrow> True
      | Some d \<Rightarrow> was_fixed d \<and> is_verified d \<and>
                  lemma_compilation_results a L = Some success_result \<and>
                  L \<notin> error_declarations a)"

text \<open>What the claims observe of a fix: the code, the declared names, whether the lemma is
  still an error declaration, the completeness of its recorded result, and the renamings
  recorded in its fix history.\<close>

definition fix_outcome ::
  "analysis \<Rightarrow> string \<Rightarrow> string \<Rightarrow>
   (string \<times> string list \<times> bool \<times> bool option \<times> (string \<times> string) list option option) option" where
  "fix_outcome a L fixed_subproblem_code =
     (case fix_lemma a L fixed_subproblem_code of
        Inl e \<Rightarrow> None
      | Inr a' \<Rightarrow> Some (pa_code a', map fst (declarations a'), L \<in> error_declarations a',
                        map_option get_complete (lemma_compilation_results a' L),
                        map_option fh_renamings (map_of (fix_history a') L)))"

definition reject_step :: "string \<Rightarrow> string \<Rightarrow> exn + compilation_info" where
  "reject_step n c =
     Inr \<lparr>ci_compilation_result =
            Some \<lparr>lr_complete = Some (n \<noteq> ''verify_aux.step''), lr_pass = Some (n \<noteq> ''verify_aux.step''),
                  lr_errors = Some (if n = ''verify_aux.step'' then [CompilerError ''unknown identifier''] else []),
                  lr_verified_by = None\<rparr>\<rparr>"

definition dotted_code :: string where
  "dotted_code = ''lemma aux : True := by\<newline>  trivial\<newline>\<newline>lemma aux.step : True := by\<newline>  exact foo''"

definition dotted :: analysis where
  "dotted = verify_all_lemmas (ProofAnalysis dotted_code None (Some reject_step))"

definition dotted_fix :: string where
  "dotted_fix = ''lemma aux : True := by\<newline>  trivial\<newline>\<newline>theorem aux.step : True := by\<newline>  exact aux''"

definition good_fix :: string where
  "good_fix = ''theorem B : f 1 = 1 := by\<newline>  simp [f]''"

definition reject_L :: "string \<Rightarrow> string \<Rightarrow> exn + compilation_info" where
  "reject_L n c =
     Inr \<lparr>ci_compilation_result =
            Some \<lparr>lr_complete = Some (n \<noteq> ''verify_L''), lr_pass = Some (n \<noteq> ''verify_L''),
                  lr_errors = Some (if n = ''verify_L'' then [CompilerError ''unknown identifier''] else []),
                  lr_verified_by = None\<rparr>\<rparr>"

definition chain_code :: string where
  "chain_code = ''lemma A : True := by\<newline>  trivial\<newline>\<newline>lemma L : True := by\<newline>  exact foo''"

definition chain :: analysis where
  "chain = verify_all_lemmas (ProofAnalysis chain_code None (Some reject_L))"

definition chain_fix :: string where
  "chain_fix = ''lemma A : 1 = 1 := by\<newline>  rfl\<newline>\<newline>lemma A_1 : 2 = 2 := by\<newline>  rfl\<newline>\<newline>theorem L : True := by\<newline>  exact A''"

definition rename_fix :: string where
  "rename_fix = ''lemma A : 1 = 1 := by\<newline>  rfl\<newline>\<newline>theorem L : True := by\<newline>  exact A''"


definition foo_statement :: string where
  "foo_statement = ''import Mathlib\<newline>open Nat\<newline>\<newline>theorem foo (n : Nat) : n = n := by sorry''"


definition good_output :: string where
  "good_output = ''Here is the proof:\<newline>```lean4\<newline>import Mathlib\<newline>/- a comment -/\<newline>lemma h : 1 = 1 := by rfl\<newline>theorem foo (n : Nat) : n = n := by\<newline>  exact rfl -- done\<newline>```\<newline>bye''"

definition comment_output :: string where
  "comment_output = ''```lean\<newline>theorem foo (n : Nat) : n = n := by\<newline>  -- no admit here\<newline>  rfl\<newline>```''"


section \<open>Properties of the compilation result\<close>

lemma verify_reply:
  assumes "repl command = Reply result"
  shows "cr_pass (verify_lean4_file repl command) = (cr_errors (verify_lean4_file repl command) = Some [])"
    and "cr_complete (verify_lean4_file repl command) =
           (cr_errors (verify_lean4_file repl command) = Some [] \<and>
            cr_sorries (verify_lean4_file repl command) = Some [])"
  using assms by (simp_all add: verify_lean4_file_def Let_def)

lemma verify_failed:
  assumes "repl command = Failed tb"
  shows "verify_lean4_file repl command =
           \<lparr>cr_errors = None, cr_sorries = None, cr_system_errors = Some tb,
            cr_system_messages = Some [], cr_pass = False, cr_complete = False\<rparr>"
  using assms by (simp add: verify_lean4_file_def)

text \<open>
  C6, as stated, fails on the failure branch: when the REPL run fails the result has
  \<^verbatim>\<open>pass = False\<close> although it has no error at all (its error list, read the way the
  repository reads it, is empty).
\<close>

theorem verify_lean4_file_pass_counterexample:
  "\<not> (cr_pass (verify_lean4_file repl_timeout ''theorem t : True := trivial'')
       = (get_errors (verify_lean4_file repl_timeout ''theorem t : True := trivial'') = []))"
  by (simp add: verify_lean4_file_def get_errors_def repl_timeout_def)

text \<open>
  C6, amended: a result built from a parsed REPL reply has \<^verbatim>\<open>pass\<close> true exactly when
  its error list is empty and \<^verbatim>\<open>complete\<close> true exactly when its error list and its
  sorry list are both empty; a result of the failure branch has \<^verbatim>\<open>pass\<close> and
  \<^verbatim>\<open>complete\<close> false and carries neither list; and for every result,
  \<^verbatim>\<open>complete\<close> implies \<^verbatim>\<open>pass\<close>, no errors and no sorries.
\<close>

theorem verify_lean4_file_invariant:
  fixes repl :: "string \<Rightarrow> repl_outcome" and command :: string
  defines "r \<equiv> verify_lean4_file repl command"
  shows "(case repl command of
            Reply _ \<Rightarrow> cr_pass r = (cr_errors r = Some []) \<and>
                       cr_complete r = (cr_errors r = Some [] \<and> cr_sorries r = Some [])
          | Failed _ \<Rightarrow> \<not> cr_pass r \<and> \<not> cr_complete r \<and> cr_errors r = None \<and> cr_sorries r = None)
         \<and> (cr_complete r \<longrightarrow> cr_pass r \<and> get_errors r = [] \<and> get_sorries r = [])"
  unfolding r_def
  by (cases "repl command")
     (auto simp: verify_lean4_file_def Let_def get_errors_def get_sorries_def)

theorem verify_lean4_file_invariant_witness:
  "cr_complete (verify_lean4_file repl_warning ''theorem t : True := trivial'')
   \<and> cr_pass (verify_lean4_file repl_warning ''theorem t : True := trivial'')
   \<and> get_errors (verify_lean4_file repl_warning ''theorem t : True := trivial'') = []"
proof -
  let ?r = "verify_lean4_file repl_warning ''theorem t : True := trivial''"
  have c: "cr_complete ?r"
    by (simp add: verify_lean4_file_def Let_def repl_warning_def)
  from verify_lean4_file_invariant [of repl_warning "''theorem t : True := trivial''"] c
  show ?thesis by simp
qed


section \<open>Properties of the inference scheduler\<close>

subsection \<open>Dispatch order\<close>









lemma inference_queue:
  "queue (inference task prio s) = queue s @ [(prio, task_counter s, task)]"
  by (simp add: inference_def)



subsection \<open>Transport errors\<close>

lemma make_api_call_transport:
  assumes "td_prompt task \<noteq> PromptOther" and "post 1 task = Inl (RequestError msg)"
  shows "make_api_call post task = (Inl (RetryError (RequestError msg)), 1)"
  using assms by (simp add: make_api_call_def api_call_body_def)

lemma make_api_call_status:
  assumes "td_prompt task \<noteq> PromptOther" and "post 1 task = Inr resp"
    and "\<not> (200 \<le> status_code resp \<and> status_code resp < 300)"
  shows "make_api_call post task = (Inl (HTTPStatusError (status_code resp)), 1)"
  using assms by (simp add: make_api_call_def api_call_body_def)

lemma compile_make_api_call_transport:
  assumes "post 1 task = Inl (RequestError msg)"
  shows "compile_make_api_call post task = (Inl (RetryError (RequestError msg)), 1)"
  using assms by (simp add: compile_make_api_call_def compile_call_body_def)

text \<open>
  C7, as stated, fails in its second half: when the gateway refuses the connection, the
  exception set on the future is not the transport error itself.
\<close>

theorem transport_error_unchanged_counterexample:
  "settle (fst (make_api_call refused task0)) (Pending :: inference_result future)
     \<noteq> Raised (RequestError ''connection refused'')"
  by (simp add: make_api_call_def api_call_body_def refused_def task0_def settle_def)

lemma make_api_call_other:
  assumes "api_call_body (post 1) task = Inl err" and "\<not> is_request_error err"
  shows "make_api_call post task = (Inl err, 1)"
  using assms by (simp add: make_api_call_def)

text \<open>
  C7, amended: a dispatched inference task whose future is pending is attempted once and never
  retried. When its HTTP call raises a transport error, the worker sets on the future the
  \<^verbatim>\<open>RetryError\<close> of the retry decorator, which wraps the transport error; when the
  attempt raises an exception that is not a transport error, the worker sets that very
  exception on the future.
\<close>

theorem worker_transport_error:
  assumes "queue_get (queue s) = Some (e, q')"
    and "futures s (count e) = Some Pending"
  shows "(td_prompt (snd (snd e)) \<noteq> PromptOther \<and> post 1 (snd (snd e)) = Inl (RequestError msg) \<longrightarrow>
            (\<exists>s'. worker post s = Some (s', e, 1) \<and>
                   futures s' (count e) = Some (Raised (RetryError (RequestError msg)))))
       \<and> (api_call_body (post 1) (snd (snd e)) = Inl err \<and> \<not> is_request_error err \<longrightarrow>
            (\<exists>s'. worker post s = Some (s', e, 1) \<and> futures s' (count e) = Some (Raised err)))"
proof (intro conjI impI)
  assume "td_prompt (snd (snd e)) \<noteq> PromptOther \<and> post 1 (snd (snd e)) = Inl (RequestError msg)"
  with assms make_api_call_transport [of "snd (snd e)" post msg]
  show "\<exists>s'. worker post s = Some (s', e, 1) \<and>
              futures s' (count e) = Some (Raised (RetryError (RequestError msg)))"
    by (simp add: worker_def settle_def)
next
  assume "api_call_body (post 1) (snd (snd e)) = Inl err \<and> \<not> is_request_error err"
  with assms make_api_call_other [of post "snd (snd e)" err]
  show "\<exists>s'. worker post s = Some (s', e, 1) \<and> futures s' (count e) = Some (Raised err)"
    by (simp add: worker_def settle_def)
qed

theorem worker_transport_error_witness:
  "queue_get (queue (inference task0 10 scheduler_init)) = Some ((10, 0, task0), [])
   \<and> futures (inference task0 10 scheduler_init) (count (10, 0, task0)) = Some Pending
   \<and> td_prompt (snd (snd (10 :: int, 0 :: nat, task0))) \<noteq> PromptOther
   \<and> refused 1 (snd (snd (10 :: int, 0 :: nat, task0))) = Inl (RequestError ''connection refused'')
   \<and> (\<exists>s'. worker refused (inference task0 10 scheduler_init) = Some (s', (10, 0, task0), 1) \<and>
            futures s' (count (10, 0, task0))
              = Some (Raised (RetryError (RequestError ''connection refused''))))
   \<and> api_call_body (unavailable 1) (snd (snd (10 :: int, 0 :: nat, task0))) = Inl (HTTPStatusError 503)
   \<and> \<not> is_request_error (HTTPStatusError 503)
   \<and> (\<exists>s'. worker unavailable (inference task0 10 scheduler_init) = Some (s', (10, 0, task0), 1) \<and>
            futures s' (count (10, 0, task0)) = Some (Raised (HTTPStatusError 503)))"
proof -
  let ?s = "inference task0 10 scheduler_init"
  have 1: "queue_get (queue ?s) = Some ((10, 0, task0), [])"
    by (simp add: inference_def scheduler_init_def queue_get_def)
  have 2: "td_prompt (snd (snd (10 :: int, 0 :: nat, task0))) \<noteq> PromptOther"
    by (simp add: task0_def)
  have 3: "refused 1 (snd (snd (10 :: int, 0 :: nat, task0))) = Inl (RequestError ''connection refused'')"
    by (simp add: refused_def)
  have 4: "futures ?s (count (10, 0, task0)) = Some Pending"
    by (simp add: inference_def scheduler_init_def count_def)
  have 5: "api_call_body (unavailable 1) (snd (snd (10 :: int, 0 :: nat, task0))) = Inl (HTTPStatusError 503)"
    by (simp add: api_call_body_def unavailable_def task0_def)
  have 6: "\<not> is_request_error (HTTPStatusError 503)"
    by simp
  from worker_transport_error [of ?s "(10, 0, task0)" "[]" refused "''connection refused''"] 1 2 3 4
  have a: "\<exists>s'. worker refused ?s = Some (s', (10, 0, task0), 1) \<and>
            futures s' (count (10, 0, task0))
              = Some (Raised (RetryError (RequestError ''connection refused'')))"
    by simp
  from worker_transport_error [of ?s "(10, 0, task0)" "[]" unavailable _ "HTTPStatusError 503"] 1 4 5 6
  have b: "\<exists>s'. worker unavailable ?s = Some (s', (10, 0, task0), 1) \<and>
            futures s' (count (10, 0, task0)) = Some (Raised (HTTPStatusError 503))"
    by simp
  from 1 2 3 4 5 6 a b show ?thesis by simp
qed


section \<open>Properties of the proof analysis\<close>

subsection \<open>Verification of all lemmas\<close>








lemma dict_update_kinds:
  assumes "\<And>d. decl_type (f d) = decl_type d" and "\<And>d. has_proof (f d) = has_proof d"
  shows "map (\<lambda>(n, d). (n, decl_type d, has_proof d)) (dict_update k f ds)
           = map (\<lambda>(n, d). (n, decl_type d, has_proof d)) ds"
  by (induction ds) (auto simp: dict_update_def assms)

lemma record_result_fields [simp]:
  "declarations (record_result x a) = declarations a"
  "error_declarations (record_result x a) = error_declarations a"
  "verification_done (record_result x a) = verification_done a"
  "pa_header (record_result x a) = pa_header a"
  by (auto simp: record_result_def split: prod.splits option.splits)

lemma fold_record_result_fields [simp]:
  "declarations (fold record_result rs a) = declarations a"
  "error_declarations (fold record_result rs a) = error_declarations a"
  "pa_header (fold record_result rs a) = pa_header a"
  by (induction rs arbitrary: a) auto




lemma mark_result_fields [simp]:
  "lemma_compilation_results (mark_result x a) = lemma_compilation_results a"
  "pa_header (mark_result x a) = pa_header a"
  "kinds_of (mark_result x a) = kinds_of a"
  by (auto simp: mark_result_def kinds_of_def dict_update_kinds split: prod.splits)

lemma fold_mark_result_fields [simp]:
  "lemma_compilation_results (fold mark_result rs a) = lemma_compilation_results a"
  "pa_header (fold mark_result rs a) = pa_header a"
  "kinds_of (fold mark_result rs a) = kinds_of a"
  by (induction rs arbitrary: a) auto


lemma cache_subproblems_fields [simp]:
  "lemma_compilation_results (cache_subproblems a) = lemma_compilation_results a"
  "error_declarations (cache_subproblems a) = error_declarations a"
  "pa_header (cache_subproblems a) = pa_header a"
  "kinds_of (cache_subproblems a) = kinds_of a"
  by (auto simp: cache_subproblems_def kinds_of_def split: sum.splits if_splits)










subsection \<open>Subproblems\<close>

lemma subproblem_step_eq:
  "subproblem_step a L deps x (cp, fs)
     = (cp @ (if decl_name x \<noteq> L \<and> decl_type x = Def then [full_text x] else []),
        fs @ (if decl_name x \<noteq> L \<and> decl_name x \<in> deps \<and>
                 (decl_type x = Axiom \<or> (lemma_or_theorem (decl_type x) \<and>
                    should_include a (decl_name x)))
              then [fact_text x] else []))"
  by (cases "decl_type x")
     (simp_all add: subproblem_step_def fact_text_def lemma_or_theorem_def)

lemma subproblem_fold:
  "fold (subproblem_step a L deps) xs (cp, fs)
     = (cp @ map full_text (filter (\<lambda>i. decl_name i \<noteq> L \<and> decl_type i = Def) xs),
        fs @ map fact_text
               (filter (\<lambda>i. decl_name i \<noteq> L \<and> decl_name i \<in> deps \<and>
                            (decl_type i = Axiom \<or> (lemma_or_theorem (decl_type i) \<and>
                               should_include a (decl_name i)))) xs))"
proof (induction xs arbitrary: cp fs)
  case Nil
  show ?case by simp
next
  case (Cons x xs)
  show ?case
    by (simp add: subproblem_step_eq Cons.IH)
qed

lemma construct_subproblem_internal_eq:
  assumes "map_of (declarations a) L = Some d" and "lemma_or_theorem (decl_type d)"
  shows "construct_subproblem_internal a L =
           Inr (pa_header a @ ''\<newline>'' @ join ''\<newline>\<newline>'' (context_defs a L) @ ''\<newline>''
                  @ sorry_form (full_text d),
                map fact_text
                  (filter (\<lambda>i. decl_name i \<noteq> L \<and> decl_name i \<in> get_proof_dependencies a L \<and>
                               (decl_type i = Axiom \<or> (lemma_or_theorem (decl_type i) \<and>
                                  should_include a (decl_name i))))
                     (sorted_declarations a)))"
  using assms
  by (simp add: construct_subproblem_internal_def Let_def subproblem_fold context_defs_def
        sorry_form_def sorted_declarations_def)




lemma map_of_map_pair:
  "map_of (map (\<lambda>p. (fst p, G p)) ds) k = map_option (\<lambda>v. G (k, v)) (map_of ds k)"
  by (induction ds) auto



lemma dict_set_values: "set (dict_set k v d) \<subseteq> insert (k, v) (set d)"
  by (induction d) (auto split: if_splits)

lemma first_pass_step_values:
  assumes "\<forall>(n, d) \<in> set acc. original_subproblem d = None"
  shows "\<forall>(n, d) \<in> set (first_pass_step x acc). original_subproblem d = None"
proof (cases x)
  case (Pair i line)
  show ?thesis
  proof (cases "match_declaration line")
    case None
    with Pair assms show ?thesis by (simp add: first_pass_step_def)
  next
    case (Some kn)
    obtain k n where kn: "kn = (k, n)" by (cases kn)
    have "set (dict_set n (new_declaration n k i) acc)
            \<subseteq> insert (n, new_declaration n k i) (set acc)"
      by (rule dict_set_values)
    with assms have "\<forall>(m, d) \<in> set (dict_set n (new_declaration n k i) acc). original_subproblem d = None"
      by (auto simp: new_declaration_def)
    with Pair Some kn show ?thesis by (simp add: first_pass_step_def)
  qed
qed

lemma first_pass_fold_values:
  assumes "\<forall>(n, d) \<in> set acc. original_subproblem d = None"
  shows "\<forall>(n, d) \<in> set (fold first_pass_step xs acc). original_subproblem d = None"
  using assms
proof (induction xs arbitrary: acc)
  case Nil
  then show ?case by simp
next
  case (Cons x xs)
  from Cons.prems have "\<forall>(n, d) \<in> set (first_pass_step x acc). original_subproblem d = None"
    by (rule first_pass_step_values)
  then have "\<forall>(n, d) \<in> set (fold first_pass_step xs (first_pass_step x acc)). original_subproblem d = None"
    by (rule Cons.IH)
  then show ?case by simp
qed

lemma second_pass_set:
  "d \<in> set (second_pass lines xs) \<Longrightarrow> \<exists>x \<in> set xs. \<exists>e. d = fill_text lines e x"
  by (induction lines xs rule: second_pass.induct) auto

lemma extract_declarations_no_cache:
  assumes "(n, d) \<in> set (extract_declarations lines)"
  shows "original_subproblem d = None"
proof -
  have fp: "\<forall>(n, d) \<in> set (first_pass lines). original_subproblem d = None"
    unfolding first_pass_def by (rule first_pass_fold_values) simp
  define sorted_decls where
    "sorted_decls = second_pass lines (sort_key start_line (map snd (first_pass lines)))"
  have sp: "original_subproblem d' = None" if "d' \<in> set sorted_decls" for d'
  proof -
    from that obtain x e where "x \<in> set (map snd (first_pass lines))" "d' = fill_text lines e x"
      unfolding sorted_decls_def by (auto dest!: second_pass_set)
    with fp show ?thesis by (auto simp: fill_text_def Let_def)
  qed
  from assms obtain d0 where d0: "(n, d0) \<in> set (first_pass lines)"
    and d: "d = third_pass (map fst (first_pass lines)) n
                  (case map_of (map (\<lambda>d. (decl_name d, d)) sorted_decls) n of
                     None \<Rightarrow> d0 | Some d' \<Rightarrow> d')"
    by (auto simp: extract_declarations_def Let_def sorted_decls_def)
  have "original_subproblem (case map_of (map (\<lambda>d. (decl_name d, d)) sorted_decls) n of
                     None \<Rightarrow> d0 | Some d' \<Rightarrow> d') = None"
  proof (cases "map_of (map (\<lambda>d. (decl_name d, d)) sorted_decls) n")
    case None
    with fp d0 show ?thesis by auto
  next
    case (Some d')
    then have "d' \<in> set sorted_decls" by (auto dest!: map_of_SomeD)
    with Some sp show ?thesis by simp
  qed
  then show ?thesis by (simp add: d third_pass_def)
qed
















subsection \<open>Fixing a lemma\<close>

lemma map_of_dict_set_same: "map_of (dict_set k v d) k = Some v"
  by (induction d) auto

lemma map_of_dict_update:
  "map_of (dict_update k f ds) n = map_option (if n = k then f else id) (map_of ds n)"
  by (induction ds) (auto simp: dict_update_def)

lemma cache_subproblems_lookup:
  "map_of (declarations (cache_subproblems b)) n = None \<longleftrightarrow> map_of (declarations b) n = None"
  by (simp add: cache_subproblems_def map_of_eq_None_iff image_iff case_prod_unfold)

text \<open>
  On an analysis as its constructor leaves it, no subproblem is cached, and \<^verbatim>\<open>fix_lemma\<close>
  called with a declared name raises at the unpacking of the missing cache, whatever the
  replacement code is; the second guard is not reached.
\<close>

lemma fix_lemma_uncached:
  assumes "map_of (declarations (ProofAnalysis code errors sched)) L = Some d"
  shows "fix_lemma (ProofAnalysis code errors sched) L fixed_subproblem_code
           = Inl (TypeError ''cannot unpack non-iterable NoneType object'')"
proof -
  from assms have "(L, d) \<in> set (extract_declarations (split_on CHR 0x0A code))"
    by (auto simp: ProofAnalysis_def Let_def dest!: map_of_SomeD)
  then have "original_subproblem d = None" by (rule extract_declarations_no_cache)
  with assms show ?thesis by (simp add: fix_lemma_def)
qed

text \<open>
  C10: the analysis of \<^verbatim>\<open>lemma B\<close> is built and not yet verified (or built with no
  scheduler), and \<^verbatim>\<open>fix_lemma\<close> is called for \<^verbatim>\<open>B\<close> with replacement code that holds
  no declaration named \<^verbatim>\<open>B\<close>. The call does not return with the analysis unchanged: it
  raises \<^verbatim>\<open>TypeError\<close>.
\<close>

theorem fix_lemma_uncached_raises:
  "map_option decl_type (map_of (declarations (ProofAnalysis small_proof None None)) ''B'') = Some Lemma
   \<and> map_of (fixed_declarations (split_on CHR 0x0A stray_fix)) ''B'' = None
   \<and> fix_lemma (ProofAnalysis small_proof None None) ''B'' stray_fix
       = Inl (TypeError ''cannot unpack non-iterable NoneType object'')
   \<and> fix_lemma small_unverified ''B'' stray_fix
       = Inl (TypeError ''cannot unpack non-iterable NoneType object'')"
proof -
  have u: "small_unverified = ProofAnalysis small_proof None None"
    by (simp add: small_unverified_def verify_all_lemmas_def ProofAnalysis_def Let_def)
  have 1: "map_option decl_type (map_of (declarations (ProofAnalysis small_proof None None)) ''B'')
             = Some Lemma"
    by code_simp
  then obtain d where d: "map_of (declarations (ProofAnalysis small_proof None None)) ''B'' = Some d"
    by auto
  have 2: "map_of (fixed_declarations (split_on CHR 0x0A stray_fix)) ''B'' = None"
    by code_simp
  from fix_lemma_uncached [OF d] 1 2 show ?thesis by (simp add: u)
qed

text \<open>
  When the name is not among the declarations of the analysis, \<^verbatim>\<open>fix_lemma\<close> returns and
  leaves the analysis as it was: code, lines, declarations, error declarations, compilation
  results and fix history. So it does when the replacement code holds no declaration of the
  name and the name is that of a lemma or theorem whose subproblem has been cached, as
  \<^verbatim>\<open>verify_all_lemmas\<close> and \<^verbatim>\<open>fix_lemma\<close> leave it.
\<close>

lemma fix_lemma_unchanged:
  assumes "map_of (declarations a) L = None
           \<or> map_of (fixed_declarations (split_on CHR 0x0A fixed_subproblem_code)) L = None"
    and "\<forall>d. map_of (declarations a) L = Some d \<longrightarrow>
              lemma_or_theorem (decl_type d) \<and> original_subproblem d \<noteq> None"
  shows "fix_lemma a L fixed_subproblem_code = Inr a"
proof (cases "map_of (declarations a) L")
  case None
  then show ?thesis by (simp add: fix_lemma_def)
next
  case (Some d)
  with assms have nf: "map_of (fixed_declarations (split_on CHR 0x0A fixed_subproblem_code)) L = None"
    and lot: "lemma_or_theorem (decl_type d)"
    by auto
  from assms(2) Some obtain cached fs where c: "original_subproblem d = Some (cached, fs)"
    by fastforce
  from construct_subproblem_internal_eq [OF Some lot]
  obtain sp where sp: "construct_subproblem_internal a L = Inr sp" by blast
  show ?thesis
    by (simp add: fix_lemma_def Some c sp nf Let_def)
qed

lemma cache_subproblems_cached:
  assumes "map_of (declarations (cache_subproblems b)) L = Some d"
    and "lemma_or_theorem (decl_type d)"
  shows "original_subproblem d \<noteq> None"
proof -
  define G where "G = (\<lambda>p :: string \<times> decl_info.
     if lemma_or_theorem (decl_type (snd p))
     then (case construct_subproblem_internal b (fst p) of
             Inr sp \<Rightarrow> (snd p)\<lparr>original_subproblem := Some sp\<rparr>
           | Inl e \<Rightarrow> snd p)
     else snd p)"
  have decls: "declarations (cache_subproblems b) = map (\<lambda>p. (fst p, G p)) (declarations b)"
    by (simp add: cache_subproblems_def G_def case_prod_unfold)
  from assms(1) obtain d0 where d0: "map_of (declarations b) L = Some d0" and d: "d = G (L, d0)"
    by (auto simp: decls map_of_map_pair)
  have "decl_type (G (L, d0)) = decl_type d0" by (simp add: G_def split: sum.splits)
  with assms(2) d have lot: "lemma_or_theorem (decl_type d0)" by simp
  from construct_subproblem_internal_eq [OF d0 lot]
  obtain sp where sp: "construct_subproblem_internal b L = Inr sp" by blast
  with d lot show ?thesis by (simp add: G_def)
qed

lemma fix_lemma_unchanged_example:
  "map_of (fixed_declarations (split_on CHR 0x0A stray_fix)) ''B'' = None
   \<and> map_option (\<lambda>d. (decl_type d, original_subproblem d))
        (map_of (declarations scenario5) ''B'')
       = Some (Lemma, Some (''import Mathlib\<newline>def f (n : Nat) : Nat := n\<newline>theorem B : f 1 = 1 := by sorry'',
                            [''axiom A : f 0 = 0'']))
   \<and> fix_lemma scenario5 ''B'' stray_fix = Inr scenario5"
proof -
  have 1: "map_of (fixed_declarations (split_on CHR 0x0A stray_fix)) ''B'' = None"
    by code_simp
  have 2: "map_option (\<lambda>d. (decl_type d, original_subproblem d))
        (map_of (declarations scenario5) ''B'')
       = Some (Lemma, Some (''import Mathlib\<newline>def f (n : Nat) : Nat := n\<newline>theorem B : f 1 = 1 := by sorry'',
                            [''axiom A : f 0 = 0'']))"
    unfolding scenario5_def by code_simp
  then have 3: "\<forall>d. map_of (declarations scenario5) ''B'' = Some d \<longrightarrow>
              lemma_or_theorem (decl_type d) \<and> original_subproblem d \<noteq> None"
    by (auto simp: lemma_or_theorem_def)
  from fix_lemma_unchanged [of scenario5 "''B''" stray_fix] 1 3
  have "fix_lemma scenario5 ''B'' stray_fix = Inr scenario5" by blast
  with 1 2 show ?thesis by simp
qed


lemma mark_verified_establishes: "marked_fixed L (mark_verified L a)"
  by (cases "map_of (declarations a) L")
     (simp_all add: marked_fixed_def mark_verified_def map_of_dict_update)

lemma mark_verified_preserves: "marked_fixed L a \<Longrightarrow> marked_fixed L (mark_verified n a)"
  by (cases "n = L"; cases "map_of (declarations a) L"; cases "map_of (declarations a) n")
     (auto simp: marked_fixed_def mark_verified_def map_of_dict_update)

lemma fold_mark_verified_preserves:
  "marked_fixed L a \<Longrightarrow> marked_fixed L (fold mark_verified ns a)"
  by (induction ns arbitrary: a) (simp_all add: mark_verified_preserves)

lemma mark_helper_preserves: "marked_fixed L a \<Longrightarrow> marked_fixed L (mark_helper L' info a)"
  by (cases "map_of (declarations a) L"; cases "fd_original_name info")
     (auto simp: marked_fixed_def mark_helper_def map_of_dict_update)

lemma fold_mark_helper_preserves:
  "marked_fixed L a \<Longrightarrow> marked_fixed L (fold (mark_helper L') infos a)"
  by (induction infos arbitrary: a) (simp_all add: mark_helper_preserves)

lemma cache_subproblems_preserves:
  assumes "marked_fixed L a"
  shows "marked_fixed L (cache_subproblems a)"
proof -
  define G where "G = (\<lambda>p :: string \<times> decl_info.
     if lemma_or_theorem (decl_type (snd p))
     then (case construct_subproblem_internal a (fst p) of
             Inr sp \<Rightarrow> (snd p)\<lparr>original_subproblem := Some sp\<rparr>
           | Inl e \<Rightarrow> snd p)
     else snd p)"
  have decls: "declarations (cache_subproblems a) = map (\<lambda>p. (fst p, G p)) (declarations a)"
    by (simp add: cache_subproblems_def G_def case_prod_unfold)
  have G: "was_fixed (G p) = was_fixed (snd p) \<and> is_verified (G p) = is_verified (snd p)" for p
    by (simp add: G_def split: sum.splits)
  show ?thesis
    using assms
    by (cases "map_of (declarations a) L")
       (simp_all add: marked_fixed_def decls map_of_map_pair G)
qed

lemma update_state_marked:
  "marked_fixed L (update_state a1 previously_fixed old_results L new_lemmas history)"
proof -
  let ?a2 = "fold (restore_fixed old_results) previously_fixed a1"
  let ?a3 = "fold mark_verified (L # map fd_name new_lemmas) ?a2"
  have 3: "marked_fixed L ?a3"
    by (simp add: fold_mark_verified_preserves mark_verified_establishes)
  let ?a4 = "(if map_of (declarations ?a3) L = None then ?a3
                else ?a3\<lparr>declarations :=
                          dict_update L
                            (\<lambda>d. d\<lparr>fixed_subproblem := Some (fh_fixed_subproblem history)\<rparr>)
                            (declarations ?a3)\<rparr>)"
  from 3 have 4: "marked_fixed L ?a4"
    by (cases "map_of (declarations ?a3) L") (simp_all add: marked_fixed_def map_of_dict_update)
  then have "marked_fixed L (cache_subproblems (fold (mark_helper L) new_lemmas ?a4))"
    by (intro cache_subproblems_preserves fold_mark_helper_preserves)
  then show ?thesis unfolding update_state_def Let_def .
qed

lemma restore_fixed_history [simp]: "fix_history (restore_fixed old n a) = fix_history a"
  by (simp add: restore_fixed_def Let_def split: option.splits)

lemma fold_restore_fixed_history [simp]:
  "fix_history (fold (restore_fixed old) ns a) = fix_history a"
  by (induction ns arbitrary: a) simp_all

lemma mark_verified_history [simp]: "fix_history (mark_verified n a) = fix_history a"
  by (simp add: mark_verified_def)

lemma fold_mark_verified_history [simp]: "fix_history (fold mark_verified ns a) = fix_history a"
  by (induction ns arbitrary: a) simp_all

lemma mark_helper_history [simp]: "fix_history (mark_helper L info a) = fix_history a"
  by (simp add: mark_helper_def)

lemma fold_mark_helper_history [simp]:
  "fix_history (fold (mark_helper L) infos a) = fix_history a"
  by (induction infos arbitrary: a) simp_all

lemma update_state_history:
  "fix_history (update_state a1 previously_fixed old_results L new_lemmas history) = fix_history a1"
  by (simp add: update_state_def Let_def cache_subproblems_def)

lemma splice_form:
  "\<exists>a1 pf old nl h.
     splice a L fixed_subproblem_code original_info orig_subproblem fixed_decls target
       = update_state a1 pf old L nl h \<and> map_of (fix_history a1) L = Some h"
proof -
  obtain nl nm en
    where f: "fold (helper_step L) fixed_decls ([], [], map fst (declarations a)) = (nl, nm, en)"
    by (cases "fold (helper_step L) fixed_decls ([], [], map fst (declarations a))")
  show ?thesis
    unfolding splice_def Let_def f prod.case
    by (intro exI conjI, rule refl) (simp add: map_of_dict_set_same)
qed

lemma fix_lemma_spliced:
  assumes "fix_lemma a L fixed_subproblem_code = Inr a'"
    and "map_of (declarations a) L \<noteq> None"
    and "map_of (fixed_declarations (split_on CHR 0x0A fixed_subproblem_code)) L \<noteq> None"
  shows "\<exists>a1 pf old nl h. a' = update_state a1 pf old L nl h \<and> map_of (fix_history a1) L = Some h"
proof -
  from assms obtain original_info orig_subproblem target where
    "a' = splice a L fixed_subproblem_code original_info orig_subproblem
            (fixed_declarations (split_on CHR 0x0A fixed_subproblem_code)) target"
    by (auto simp: fix_lemma_def Let_def split: option.splits sum.splits prod.splits if_splits)
  with splice_form show ?thesis by metis
qed

text \<open>
  After \<^verbatim>\<open>fix_lemma\<close> has spliced a replacement for a lemma \<open>L\<close> that exists in the
  analysis and is declared in the fixed code, the fix history has an entry for \<open>L\<close>; and
  if \<open>L\<close> is declared in the analysis of the spliced code, its declaration has
  \<^verbatim>\<open>was_fixed\<close> and \<^verbatim>\<open>is_verified\<close> true, the compilation result recorded for \<open>L\<close>
  is complete, and \<open>L\<close> is not an error declaration.
\<close>

lemma fix_lemma_marks_declared:
  assumes "fix_lemma a L fixed_subproblem_code = Inr a'"
    and "map_of (declarations a) L \<noteq> None"
    and "map_of (fixed_declarations (split_on CHR 0x0A fixed_subproblem_code)) L \<noteq> None"
  shows "map_of (fix_history a') L \<noteq> None \<and>
         (\<forall>d'. map_of (declarations a') L = Some d' \<longrightarrow>
            was_fixed d' \<and> is_verified d' \<and>
            (\<exists>r. lemma_compilation_results a' L = Some r \<and> get_complete r) \<and>
            L \<notin> error_declarations a')"
proof -
  from fix_lemma_spliced [OF assms] obtain a1 pf old nl h
    where a': "a' = update_state a1 pf old L nl h" and h: "map_of (fix_history a1) L = Some h"
    by blast
  have "marked_fixed L a'" unfolding a' by (rule update_state_marked)
  moreover have "get_complete success_result"
    by (simp add: get_complete_def success_result_def)
  ultimately show ?thesis
    using h by (auto simp: a' update_state_history marked_fixed_def)
qed


text \<open>
  C4: the analysis declares \<^verbatim>\<open>aux\<close> and the failing \<^verbatim>\<open>aux.step\<close>, and the fix for
  \<^verbatim>\<open>aux.step\<close> restates \<^verbatim>\<open>aux\<close> as a helper. The helper collides and becomes
  \<^verbatim>\<open>aux_1\<close>, and the renaming rewrites the word \<^verbatim>\<open>aux\<close> inside the name of the fixed
  lemma as well: the spliced code declares \<^verbatim>\<open>aux_1.step\<close>, and afterwards
  \<^verbatim>\<open>aux.step\<close> is not declared, is still an error declaration and still has its failed
  compilation result.
\<close>

theorem fix_lemma_dotted_target:
  "map_option decl_type (map_of (declarations dotted) ''aux.step'') = Some Lemma
   \<and> map_option fd_type (map_of (fixed_declarations (split_on CHR 0x0A dotted_fix)) ''aux.step'')
       = Some Theorem
   \<and> fix_outcome dotted ''aux.step'' dotted_fix
       = Some (''lemma aux : True := by\<newline>  trivial\<newline>\<newline>lemma aux_1 : True := by\<newline>  trivial\<newline>\<newline>lemma aux_1.step : True := by\<newline>  exact aux_1'',
               [''aux'', ''aux_1'', ''aux_1.step''], True, Some False,
               Some (Some [(''aux'', ''aux_1'')]))"
  unfolding dotted_def by code_simp

lemma fix_lemma_marks_declared_example:
  "\<exists>a'. fix_lemma scenario5 ''B'' good_fix = Inr a'
        \<and> map_of (declarations scenario5) ''B'' \<noteq> None
        \<and> map_of (fixed_declarations (split_on CHR 0x0A good_fix)) ''B'' \<noteq> None
        \<and> map_of (declarations a') ''B'' \<noteq> None
        \<and> map_of (fix_history a') ''B'' \<noteq> None
        \<and> ''B'' \<notin> error_declarations a'"
proof -
  have "fix_outcome scenario5 ''B'' good_fix
          = Some (''import Mathlib\<newline>\<newline>def f (n : Nat) : Nat := n\<newline>\<newline>lemma A : f 0 = 0 := by\<newline>  rfl\<newline>\<newline>lemma B : f 1 = 1 := by\<newline>  simp [f]\<newline>theorem T : f 2 = 2 := by\<newline>  exact bar A B'',
                  [''f'', ''A'', ''B'', ''T''], False, Some True, Some None)"
    unfolding scenario5_def by code_simp
  then obtain a' where a': "fix_lemma scenario5 ''B'' good_fix = Inr a'"
    and names: "map fst (declarations a') = [''f'', ''A'', ''B'', ''T'']"
    by (auto simp: fix_outcome_def split: sum.splits)
  have "map_option decl_type (map_of (declarations scenario5) ''B'') = Some Lemma"
    unfolding scenario5_def by code_simp
  then have d: "map_of (declarations scenario5) ''B'' \<noteq> None" by auto
  have "map_option fd_type (map_of (fixed_declarations (split_on CHR 0x0A good_fix)) ''B'') = Some Theorem"
    by code_simp
  then have fd: "map_of (fixed_declarations (split_on CHR 0x0A good_fix)) ''B'' \<noteq> None" by auto
  have "''B'' \<in> set (map fst (declarations a'))" by (simp add: names)
  then have d': "map_of (declarations a') ''B'' \<noteq> None"
    by (simp add: map_of_eq_None_iff)
  from fix_lemma_marks_declared [OF a' d fd] d'
  have "map_of (fix_history a') ''B'' \<noteq> None \<and> ''B'' \<notin> error_declarations a'" by auto
  with a' d fd d' show ?thesis by blast
qed

subsection \<open>Fresh names\<close>

lemma unique_from_minimal:
  "\<exists>k\<ge>c. unique_from b ex c = suffixed b k \<and> suffixed b k \<notin> set ex \<and>
          (\<forall>j. c \<le> j \<and> j < k \<longrightarrow> suffixed b j \<in> set ex)"
proof (induction b ex c rule: unique_from.induct)
  case (1 b ex c)
  show ?case
  proof (cases "suffixed b c \<in> set ex")
    case True
    from "1.IH" [OF True] obtain k where k: "c + 1 \<le> k" "unique_from b ex (c + 1) = suffixed b k"
      "suffixed b k \<notin> set ex" "\<forall>j. c + 1 \<le> j \<and> j < k \<longrightarrow> suffixed b j \<in> set ex"
      by blast
    have "\<forall>j. c \<le> j \<and> j < k \<longrightarrow> suffixed b j \<in> set ex"
    proof (intro allI impI)
      fix j assume "c \<le> j \<and> j < k"
      then have "j = c \<or> (c + 1 \<le> j \<and> j < k)" by auto
      with True k(4) show "suffixed b j \<in> set ex" by auto
    qed
    with k True show ?thesis
      by (subst unique_from.simps) (auto intro!: exI [of _ k])
  next
    case False
    then show ?thesis
      by (subst unique_from.simps) (auto intro!: exI [of _ c])
  qed
qed

text \<open>
  \<^verbatim>\<open>_generate_unique_name\<close> on a name that is taken: the result is \<^verbatim>\<open>base_k\<close> for the
  least positive \<open>k\<close> such that \<^verbatim>\<open>base_k\<close> is not taken.
\<close>

lemma generate_unique_name_minimal:
  assumes "base_name \<in> set existing_names"
  shows "\<exists>k\<ge>1. generate_unique_name base_name existing_names = suffixed base_name k \<and>
               suffixed base_name k \<notin> set existing_names \<and>
               (\<forall>j. 1 \<le> j \<and> j < k \<longrightarrow> suffixed base_name j \<in> set existing_names)"
  using assms unique_from_minimal [of 1 base_name existing_names]
  by (simp add: generate_unique_name_def)

text \<open>
  C5 at an input where the code misses it: the analysis declares \<^verbatim>\<open>A\<close> and the failing
  \<^verbatim>\<open>L\<close>; the fix brings the helpers \<^verbatim>\<open>A\<close> and \<^verbatim>\<open>A_1\<close>. The helper \<^verbatim>\<open>A\<close> is
  given the name \<^verbatim>\<open>A_1\<close> and the fix history records that renaming, but the renamings
  are applied one after the other, so the second one (\<^verbatim>\<open>A_1\<close> to \<^verbatim>\<open>A_1_1\<close>) renames the
  first helper again: the spliced code declares \<^verbatim>\<open>A_1_1\<close> twice and no \<^verbatim>\<open>A_1\<close>.
\<close>

theorem fix_lemma_chained_renaming:
  "fix_outcome chain ''L'' chain_fix
     = Some (''lemma A : True := by\<newline>  trivial\<newline>\<newline>lemma A_1_1 : 1 = 1 := by\<newline>  rfl\<newline>\<newline>lemma A_1_1 : 2 = 2 := by\<newline>  rfl\<newline>\<newline>lemma L : True := by\<newline>  exact A_1_1'',
             [''A'', ''A_1_1'', ''L''], False, Some True,
             Some (Some [(''A'', ''A_1''), (''A_1'', ''A_1_1'')]))"
  unfolding chain_def by code_simp

text \<open>The helper-rename scenario with a single collision, where the renaming is as described.\<close>

lemma fix_lemma_single_renaming:
  "fix_outcome chain ''L'' rename_fix
     = Some (''lemma A : True := by\<newline>  trivial\<newline>\<newline>lemma A_1 : 1 = 1 := by\<newline>  rfl\<newline>\<newline>lemma L : True := by\<newline>  exact A_1'',
             [''A'', ''A_1'', ''L''], False, Some True,
             Some (Some [(''A'', ''A_1'')]))"
  unfolding chain_def by code_simp


section \<open>Properties of the output normalisation\<close>



text \<open>An output that is accepted, and one whose only refused word stands in a comment.\<close>

lemma process_output_accepts:
  "InferenceHandler_process_output good_output foo_statement None
     = ''import Mathlib\<newline>import Aesop\<newline>\<newline>set_option maxHeartbeats 0\<newline>\<newline>open Nat\<newline>\<newline>lemma h : 1 = 1 := by rfl\<newline>\<newline>theorem foo (n : Nat) : n = n := by\<newline>  exact rfl''"
  by code_simp

lemma process_output_comment:
  "candidate comment_output foo_statement = ''theorem foo (n : Nat) : n = n := by\<newline>  \<newline>  rfl''
   \<and> RevisionHandler_process_output comment_output foo_statement (Some [''axiom A : True''])
     = ''import Mathlib\<newline>import Aesop\<newline>\<newline>set_option maxHeartbeats 0\<newline>\<newline>open Nat\<newline>\<newline>\<newline>\<newline>axiom A : True\<newline>\<newline>theorem foo (n : Nat) : n = n := by\<newline>  \<newline>  rfl''"
  by code_simp

end
